theory Spec2Isabelle
  imports Main "HOL-Library.Word" "HOL-Library.AList"
begin

section \<open>Lowering MIGraphX to TOSA: a shallow embedding of MIGraphXToTosa.cpp\<close>

text \<open>
  The rewrite rules of \<^verbatim>\<open>mlir/lib/Conversion/MIGraphXToTosa/MIGraphXToTosa.cpp\<close> are
  embedded as functions on an explicit IR state. Extents, axes and attribute integers are
  \<^verbatim>\<open>int64_t\<close> in the source and 64-bit words here (their products wrap); ranks and loop counters are
  \<^verbatim>\<open>size_t\<close> or \<^verbatim>\<open>uint32_t\<close> and are natural numbers with the unsigned wrap-around of a
  subtraction written out. An indexed read outside a shape (\<^verbatim>\<open>ArrayRef::operator[]\<close>,
  \<^verbatim>\<open>SmallVector::operator[]\<close>), a failed \<^verbatim>\<open>cast\<close> and a failed \<^verbatim>\<open>assert\<close> abort the
  rewrite; they are the \<open>Inl\<close> results of the model.
\<close>

subsection \<open>Data model\<close>

type_synonym int64 = "64 word"

datatype crash = IndexOutOfBounds | CastFailed | AssertionFailed

datatype LogicalResult = Success | Failure | EmitError string

datatype elemType = FloatType nat | IntegerType nat | IndexType

record RankedTensorType =
  shape :: "int64 list"
  elementType :: elemType

text \<open>
  A value is the result of an operation or a block argument and carries its type, as
  \<^verbatim>\<open>Value::getType\<close> reads it from the value.
\<close>

datatype Value = OpResult nat RankedTensorType | BlockArgument nat RankedTensorType

text \<open>
  The attributes the rules read and write. A float attribute is only ever built from an
  extent (line 471) and holds that integer.
\<close>

datatype attr =
    IntegerAttr int64
  | FloatAttr int64
  | BoolAttr bool
  | StringAttr string
  | ArrayAttr "attr list"
  | DenseI64ArrayAttr "int64 list"
  | DenseIntElementsAttr "int64 list"
  | DenseElementsAttr RankedTensorType "attr list"
  | ZeroAttr RankedTensorType
  | ConvOpQuantizationAttr int64 int64

datatype opKind =
    migraphx_convolution | migraphx_broadcast | migraphx_multibroadcast | migraphx_dot
  | migraphx_softmax | migraphx_reshape | migraphx_reduce_mean | migraphx_quantizelinear
  | migraphx_other string
  | arith_constant
  | tosa_const | tosa_transpose | tosa_conv2d | tosa_reshape | tosa_matmul
  | tosa_reduce_max | tosa_reduce_sum | tosa_sub | tosa_exp | tosa_reciprocal
  | tosa_mul | tosa_add | tosa_cast

text \<open>
  Every operation of the two vocabularies has exactly one result, so an operation records
  one result type. An operation's id is its position in the list of operations of the IR;
  \<open>erased\<close> and \<open>replaced\<close> are what the rewriter was asked through \<^verbatim>\<open>eraseOp\<close> and
  \<^verbatim>\<open>replaceOp\<close>; \<open>constructed\<close> is the history of \<^verbatim>\<open>rewriter.create\<close>: each operation as it
  was when it was constructed.
\<close>

record Operation =
  kind :: opKind
  operands :: "Value list"
  attrs :: "(string \<times> attr) list"
  resultType :: RankedTensorType

record IR =
  ops :: "Operation list"
  erased :: "nat list"
  replaced :: "(nat \<times> Value) list"
  constructed :: "Operation list"

subsection \<open>Results, checked reads, unsigned arithmetic\<close>

text \<open>Sequencing of steps that may abort, and the checked read of a list.\<close>

definition andThen :: "crash + 'a \<Rightarrow> ('a \<Rightarrow> crash + 'b) \<Rightarrow> crash + 'b" where
  "andThen m f = (case m of Inl e \<Rightarrow> Inl e | Inr x \<Rightarrow> f x)"

definition at :: "'a list \<Rightarrow> nat \<Rightarrow> crash + 'a" where
  "at xs i = (if i < length xs then Inr (xs ! i) else Inl IndexOutOfBounds)"

text \<open>\<^verbatim>\<open>a - b\<close> in \<^verbatim>\<open>size_t\<close> and in \<^verbatim>\<open>uint32_t\<close>.\<close>

definition size_t_sub :: "nat \<Rightarrow> nat \<Rightarrow> nat" where
  "size_t_sub a b = (a + 2 ^ 64 - b) mod 2 ^ 64"

definition uint32_sub :: "nat \<Rightarrow> nat \<Rightarrow> nat" where
  "uint32_sub a b = (a + 2 ^ 32 - b) mod 2 ^ 32"

definition getType :: "Value \<Rightarrow> RankedTensorType" where
  "getType v = (case v of OpResult _ t \<Rightarrow> t | BlockArgument _ t \<Rightarrow> t)"

definition getResult :: "IR \<Rightarrow> nat \<Rightarrow> Value" where
  "getResult ir opId = OpResult opId (resultType (ops ir ! opId))"

definition getAttr :: "Operation \<Rightarrow> string \<Rightarrow> attr option" where
  "getAttr op name = map_of (attrs op) name"

definition castIntegerAttr :: "attr option \<Rightarrow> crash + int64" where
  "castIntegerAttr a = (case a of Some (IntegerAttr i) \<Rightarrow> Inr i | _ \<Rightarrow> Inl CastFailed)"

definition castArrayAttr :: "attr option \<Rightarrow> crash + attr list" where
  "castArrayAttr a = (case a of Some (ArrayAttr xs) \<Rightarrow> Inr xs | _ \<Rightarrow> Inl CastFailed)"

text \<open>\<^verbatim>\<open>rewriter.create\<close>: the new operation gets the next id and is logged as constructed.\<close>

definition resultOf :: "nat \<Rightarrow> Operation \<Rightarrow> Value" where
  "resultOf opId op = OpResult opId (resultType op)"

definition appendOps :: "IR \<Rightarrow> Operation list \<Rightarrow> IR" where
  "appendOps ir new = ir\<lparr>ops := ops ir @ new, constructed := constructed ir @ new\<rparr>"

definition create :: "IR \<Rightarrow> Operation \<Rightarrow> Value \<times> IR" where
  "create ir op = (resultOf (length (ops ir)) op, appendOps ir [op])"

definition replaceOp :: "IR \<Rightarrow> nat \<Rightarrow> Value \<Rightarrow> IR" where
  "replaceOp ir opId v = ir\<lparr>replaced := replaced ir @ [(opId, v)]\<rparr>"

definition eraseOp :: "IR \<Rightarrow> nat \<Rightarrow> IR" where
  "eraseOp ir opId = ir\<lparr>erased := erased ir @ [opId]\<rparr>"

definition setAttr :: "IR \<Rightarrow> nat \<Rightarrow> string \<Rightarrow> attr \<Rightarrow> IR" where
  "setAttr ir opId name a =
     ir\<lparr>ops := (ops ir)[opId := (ops ir ! opId)\<lparr>attrs := AList.update name a (attrs (ops ir ! opId))\<rparr>]\<rparr>"

subsection \<open>Layout transpose construction (getRank4TransposeOp)\<close>

definition NCHW2NHWC :: "int64 list" where
  "NCHW2NHWC = [0, 2, 3, 1]"

definition NHWC2NCHW :: "int64 list" where
  "NHWC2NCHW = [0, 3, 1, 2]"

text \<open>The shape of lines 91-93: four reads of the input shape at the permutation's entries.\<close>

definition permutedShape :: "int64 list \<Rightarrow> int64 list \<Rightarrow> crash + int64 list" where
  "permutedShape inputShape permutation =
     andThen (at permutation 0) (\<lambda>p0. andThen (at inputShape (unat p0)) (\<lambda>d0.
     andThen (at permutation 1) (\<lambda>p1. andThen (at inputShape (unat p1)) (\<lambda>d1.
     andThen (at permutation 2) (\<lambda>p2. andThen (at inputShape (unat p2)) (\<lambda>d2.
     andThen (at permutation 3) (\<lambda>p3. andThen (at inputShape (unat p3)) (\<lambda>d3.
     Inr [d0, d1, d2, d3]))))))))"

definition permutationConst :: "int64 list \<Rightarrow> Operation" where
  "permutationConst permutation =
     \<lparr>kind = arith_constant, operands = [],
      attrs = [(''value'', DenseIntElementsAttr permutation)],
      resultType = \<lparr>shape = [4], elementType = IntegerType 64\<rparr>\<rparr>"

definition transposeOp :: "Value \<Rightarrow> Value \<Rightarrow> int64 list \<Rightarrow> Operation" where
  "transposeOp input permutationValue newShape =
     \<lparr>kind = tosa_transpose, operands = [input, permutationValue], attrs = [],
      resultType = \<lparr>shape = newShape, elementType = elementType (getType input)\<rparr>\<rparr>"

text \<open>Lines 81-99: the permutation constant, then the transpose with the permuted shape.\<close>

definition getRank4TransposeOp :: "IR \<Rightarrow> Value \<Rightarrow> int64 list \<Rightarrow> crash + (Value \<times> IR)" where
  "getRank4TransposeOp ir input permutation =
     (let (permutationValue, ir1) = create ir (permutationConst permutation)
      in andThen (permutedShape (shape (getType input)) permutation) (\<lambda>newShape.
           Inr (create ir1 (transposeOp input permutationValue newShape))))"

subsection \<open>Batched dot (DotConverter)\<close>

text \<open>
  Lines 335-343: \<^verbatim>\<open>for (size_t i = 0; i < bound; i++) batchSize *= dims[i];\<close> with the
  checked read of \<^verbatim>\<open>ArrayRef\<close>. The bound is \<^verbatim>\<open>rank - 2\<close> in \<^verbatim>\<open>size_t\<close>.
\<close>

function batchSizeLoop :: "int64 list \<Rightarrow> nat \<Rightarrow> nat \<Rightarrow> int64 \<Rightarrow> crash + int64" where
  "batchSizeLoop dims bound i batchSize =
     (if i < bound
      then (if i < length dims
            then batchSizeLoop dims bound (Suc i) (batchSize * dims ! i)
            else Inl IndexOutOfBounds)
      else Inr batchSize)"
  by pat_completeness auto
termination
  by (relation "measure (\<lambda>(dims, bound, i, batchSize). bound - i)") auto

declare batchSizeLoop.simps [simp del]

text \<open>
  Lines 345-350: \<^verbatim>\<open>{batchSize, dims[outRank - 2], dims[outRank - 1]}\<close>, for operand A,
  operand B and the output alike: the positions come from the rank of the output.
\<close>

definition flatDims :: "int64 \<Rightarrow> int64 list \<Rightarrow> nat \<Rightarrow> crash + int64 list" where
  "flatDims batchSize dims outRank =
     andThen (at dims (size_t_sub outRank 2)) (\<lambda>rows.
     andThen (at dims (size_t_sub outRank 1)) (\<lambda>cols.
     Inr [batchSize, rows, cols]))"

text \<open>Lines 355-358: \<^verbatim>\<open>newDims[0] = 1; newDims[1] *= batchSize;\<close> on a three-element array.\<close>

definition foldBatch :: "int64 \<Rightarrow> int64 list \<Rightarrow> int64 list" where
  "foldBatch batchSize newDims = (newDims[0 := 1])[1 := newDims ! 1 * batchSize]"

datatype flattened =
    Flattened "int64 list" "int64 list" "int64 list"
  | CannotBroadcast

text \<open>Lines 334-364, the shape algebra of the flattening path.\<close>

definition dotFlatten :: "int64 list \<Rightarrow> int64 list \<Rightarrow> int64 list \<Rightarrow> crash + flattened" where
  "dotFlatten orgDimsA orgDimsB orgOutDims =
     (let outRank = length orgOutDims; rankA = length orgDimsA; rankB = length orgDimsB in
      andThen (batchSizeLoop orgOutDims (size_t_sub outRank 2) 0 1) (\<lambda>batchSizeC.
      andThen (batchSizeLoop orgDimsA (size_t_sub rankA 2) 0 1) (\<lambda>batchSizeA.
      andThen (batchSizeLoop orgDimsB (size_t_sub rankB 2) 0 1) (\<lambda>batchSizeB.
      andThen (flatDims batchSizeA orgDimsA outRank) (\<lambda>newDimsA.
      andThen (flatDims batchSizeB orgDimsB outRank) (\<lambda>newDimsB.
      andThen (flatDims batchSizeC orgOutDims outRank) (\<lambda>newDimsOut.
      if batchSizeA \<noteq> batchSizeB
      then (if batchSizeB = 1
            then Inr (Flattened (foldBatch batchSizeA newDimsA) newDimsB
                                (foldBatch batchSizeC newDimsOut))
            else Inr CannotBroadcast)
      else Inr (Flattened newDimsA newDimsB newDimsOut))))))))"

text \<open>The condition of lines 332-333 and 386-387.\<close>

definition needsFlatten :: "int64 list \<Rightarrow> int64 list \<Rightarrow> int64 list \<Rightarrow> bool" where
  "needsFlatten orgDimsA orgDimsB orgOutDims =
     (length orgOutDims \<noteq> 3 \<or> length orgDimsA \<noteq> length orgDimsB \<or>
      (length orgOutDims = 3 \<and> orgDimsA \<noteq> orgDimsB))"

text \<open>Lines 157-160 and 381-384: the two optional attributes are copied when present.\<close>

definition copyOptionalAttrs :: "IR \<Rightarrow> Operation \<Rightarrow> nat \<Rightarrow> IR" where
  "copyOptionalAttrs ir op target =
     (let ir1 = (case getAttr op ''xdlopsV2'' of
                   Some (BoolAttr b) \<Rightarrow> setAttr ir target ''xdlopsV2'' (BoolAttr b)
                 | _ \<Rightarrow> ir)
      in case getAttr op ''perf_config'' of
           Some (StringAttr s) \<Rightarrow> setAttr ir1 target ''perf_config'' (StringAttr s)
         | _ \<Rightarrow> ir1)"

text \<open>A target reshape: the new shape is its attribute, the result type is given.\<close>

definition reshapeOp :: "Value \<Rightarrow> int64 list \<Rightarrow> RankedTensorType \<Rightarrow> Operation" where
  "reshapeOp input newShape ty =
     \<lparr>kind = tosa_reshape, operands = [input],
      attrs = [(''new_shape'', DenseI64ArrayAttr newShape)], resultType = ty\<rparr>"

text \<open>
  Lines 308-395. The diagnostic of line 362 is returned before any operation is created;
  the result carries the IR as the rule leaves it.
\<close>

definition DotConverter :: "IR \<Rightarrow> nat \<Rightarrow> crash + (LogicalResult \<times> IR)" where
  "DotConverter ir opId =
     andThen (at (ops ir) opId) (\<lambda>op.
     andThen (at (operands op) 0) (\<lambda>in_A.
     andThen (at (operands op) 1) (\<lambda>in_B.
     (let elementTy = elementType (getType in_A);
          outputTy = resultType op;
          orgOutDims = shape outputTy;
          orgDimsA = shape (getType in_A);
          orgDimsB = shape (getType in_B)
      in if needsFlatten orgDimsA orgDimsB orgOutDims
         then andThen (dotFlatten orgDimsA orgDimsB orgOutDims) (\<lambda>f.
           case f of
             CannotBroadcast \<Rightarrow> Inr (EmitError ''tosa.matmul can't broadcast input.'', ir)
           | Flattened newDimsA newDimsB newDimsOut \<Rightarrow>
               (let (reshapeAOp, ir1) = create ir
                      (reshapeOp in_A newDimsA \<lparr>shape = newDimsA, elementType = elementTy\<rparr>);
                    (reshapeBOp, ir2) = create ir1
                      (reshapeOp in_B newDimsB \<lparr>shape = newDimsB, elementType = elementTy\<rparr>);
                    mopId = length (ops ir2);
                    (mop, ir3) = create ir2
                      \<lparr>kind = tosa_matmul, operands = [reshapeAOp, reshapeBOp], attrs = [],
                       resultType = \<lparr>shape = newDimsOut, elementType = elementTy\<rparr>\<rparr>;
                    ir4 = copyOptionalAttrs ir3 op mopId;
                    (rop, ir5) = create ir4 (reshapeOp mop orgOutDims outputTy)
                in Inr (Success, replaceOp ir5 opId rop)))
         else (let mopId = length (ops ir);
                   (mop, ir1) = create ir
                     \<lparr>kind = tosa_matmul, operands = [in_A, in_B], attrs = [],
                      resultType = \<lparr>shape = orgOutDims, elementType = elementTy\<rparr>\<rparr>;
                   ir2 = copyOptionalAttrs ir1 op mopId
               in Inr (Success, replaceOp ir2 opId mop))))))"

subsection \<open>Operand rewiring (isBroadcastable and the use loops)\<close>

definition setOperand :: "IR \<Rightarrow> nat \<Rightarrow> nat \<Rightarrow> Value \<Rightarrow> IR" where
  "setOperand ir owner idx v =
     ir\<lparr>ops := (ops ir)[owner := (ops ir ! owner)\<lparr>operands := (operands (ops ir ! owner))[idx := v]\<rparr>]\<rparr>"

text \<open>
  Lines 30-40. The operation is mutated in place, not through the rewriter: when the second
  operand is not the broadcast's result, operand 0 takes the value of operand 1 and
  operand 1 takes the broadcast's result.
\<close>

definition isBroadcastable :: "IR \<Rightarrow> nat \<Rightarrow> nat \<Rightarrow> crash + (bool \<times> IR)" where
  "isBroadcastable ir op operand =
     andThen (at (ops ir) op) (\<lambda>expanded.
       if length (operands expanded) \<noteq> 2 then Inr (False, ir)
       else if operands expanded ! 1 \<noteq> getResult ir operand
            then Inr (True, setOperand (setOperand ir op 0 (operands expanded ! 1))
                              op 1 (getResult ir operand))
            else Inr (True, ir))"

text \<open>
  Modelled from the spec: the use list of a value belongs to the IR core, which is not part
  of the lowering's source. A value is consumed by the operations holding an input reference
  to it; the list has one entry (the owner) per operand slot that holds the value, the most
  recently created operation first, and the loops below visit each entry once.
\<close>

definition getUses :: "IR \<Rightarrow> Value \<Rightarrow> nat list" where
  "getUses ir v =
     concat (map (\<lambda>i. replicate (count_list (operands (ops ir ! i)) v) i)
                 (rev [0..<length (ops ir)]))"

text \<open>
  Lines 225-230 and 288-293: the first operand slot of the consumer that holds the
  broadcast's result is set to the new operand, in place.
\<close>

fun replaceFirst :: "Value \<Rightarrow> Value \<Rightarrow> Value list \<Rightarrow> Value list" where
  "replaceFirst old new [] = []"
| "replaceFirst old new (x # xs) =
     (if x = old then new # xs else x # replaceFirst old new xs)"

definition rewireUse :: "IR \<Rightarrow> nat \<Rightarrow> Value \<Rightarrow> Value \<Rightarrow> IR" where
  "rewireUse ir owner old new =
     ir\<lparr>ops := (ops ir)[owner := (ops ir ! owner)
             \<lparr>operands := replaceFirst old new (operands (ops ir ! owner))\<rparr>]\<rparr>"

subsection \<open>Broadcast (BroadcastConverter)\<close>

text \<open>Lines 209-211: \<^verbatim>\<open>for (uint32_t i = 0; i < outRank; i++) newShape.push_back(1);\<close>\<close>

function pushOnes :: "nat \<Rightarrow> nat \<Rightarrow> int64 list \<Rightarrow> int64 list" where
  "pushOnes outRank i newShape =
     (if i < outRank then pushOnes outRank (Suc i) (newShape @ [1]) else newShape)"
  by pat_completeness auto
termination
  by (relation "measure (\<lambda>(outRank, i, newShape). outRank - i)") auto

declare pushOnes.simps [simp del]

text \<open>Lines 206-212: the aligned shape; \<^verbatim>\<open>newShape[axis] = inShape[0]\<close> with both reads checked.\<close>

definition alignByAxis :: "nat \<Rightarrow> int64 \<Rightarrow> int64 list \<Rightarrow> crash + int64 list" where
  "alignByAxis outRank axis inShape =
     (let newShape = pushOnes outRank 0 [] in
      andThen (at inShape 0) (\<lambda>extent.
        if unat axis < length newShape then Inr (newShape[unat axis := extent])
        else Inl IndexOutOfBounds))"

text \<open>Lines 198-218: the operand the consumers are rewired to.\<close>

definition broadcastOperand ::
    "IR \<Rightarrow> Value \<Rightarrow> int64 \<Rightarrow> RankedTensorType \<Rightarrow> crash + (Value \<times> IR)" where
  "broadcastOperand ir input_t axis outTy =
     (let outShape = shape outTy;
          outElemType = elementType outTy;
          outRank = length outShape mod 2 ^ 32;
          inShape = shape (getType input_t)
      in if outRank \<noteq> length inShape
         then andThen (alignByAxis outRank axis inShape) (\<lambda>newShape.
                Inr (create ir (reshapeOp input_t newShape
                       \<lparr>shape = newShape, elementType = outElemType\<rparr>)))
         else Inr (input_t, ir))"

text \<open>Lines 220-234: the loop over the uses; it stops at the first consumer that does not qualify.\<close>

fun broadcastUses :: "IR \<Rightarrow> nat \<Rightarrow> Value \<Rightarrow> nat list \<Rightarrow> crash + (LogicalResult \<times> IR)" where
  "broadcastUses ir op newOperand [] = Inr (Success, ir)"
| "broadcastUses ir op newOperand (expandedOp # uses) =
     andThen (isBroadcastable ir expandedOp op) (\<lambda>(ok, ir1).
       if ok
       then broadcastUses (rewireUse ir1 expandedOp (getResult ir1 op) newOperand)
              op newOperand uses
       else Inr (Failure, ir1))"

text \<open>Lines 189-238: the broadcast is erased when every use has been rewired.\<close>

definition BroadcastConverter :: "IR \<Rightarrow> nat \<Rightarrow> crash + (LogicalResult \<times> IR)" where
  "BroadcastConverter ir opId =
     andThen (at (ops ir) opId) (\<lambda>op.
     andThen (at (operands op) 0) (\<lambda>input_t.
     andThen (castIntegerAttr (getAttr op ''axis'')) (\<lambda>axis.
     andThen (broadcastOperand ir input_t axis (resultType op)) (\<lambda>(newOperand, ir1).
     andThen (broadcastUses ir1 opId newOperand (getUses ir1 (getResult ir1 opId)))
       (\<lambda>(res, ir2).
          case res of
            Success \<Rightarrow> Inr (Success, eraseOp ir2 opId)
          | _ \<Rightarrow> Inr (res, ir2))))))"

subsection \<open>Multi-broadcast (MultiBroadcastConverter)\<close>

text \<open>
  Lines 273-276: \<^verbatim>\<open>for (; i < outRank - inRank; i++) newShape.push_back(inShape[i]);\<close>
  The bound is a \<^verbatim>\<open>uint32_t\<close> difference; the loop returns the counter with the shape.
\<close>

function copyLeading ::
    "int64 list \<Rightarrow> nat \<Rightarrow> nat \<Rightarrow> int64 list \<Rightarrow> crash + (nat \<times> int64 list)" where
  "copyLeading inShape bound i newShape =
     (if i < bound
      then (if i < length inShape
            then copyLeading inShape bound (Suc i) (newShape @ [inShape ! i])
            else Inl IndexOutOfBounds)
      else Inr (i, newShape))"
  by pat_completeness auto
termination
  by (relation "measure (\<lambda>(inShape, bound, i, newShape). bound - i)") auto

declare copyLeading.simps [simp del]

text \<open>Lines 270-279: the two loops share the counter.\<close>

definition alignLeading :: "nat \<Rightarrow> int64 list \<Rightarrow> crash + int64 list" where
  "alignLeading outRank inShape =
     (let inRank = length inShape mod 2 ^ 32 in
      andThen (copyLeading inShape (uint32_sub outRank inRank) 0 []) (\<lambda>(i, newShape).
        Inr (pushOnes outRank i newShape)))"

text \<open>Lines 262-285: the operand one consumer is rewired to.\<close>

definition multiBroadcastOperand ::
    "IR \<Rightarrow> Value \<Rightarrow> RankedTensorType \<Rightarrow> crash + (Value \<times> IR)" where
  "multiBroadcastOperand ir input_t outTy =
     (let outShape = shape outTy;
          outElemType = elementType outTy;
          outRank = length outShape mod 2 ^ 32;
          inShape = shape (getType input_t)
      in if outRank \<noteq> length inShape
         then andThen (alignLeading outRank inShape) (\<lambda>newShape.
                Inr (create ir (reshapeOp input_t newShape
                       \<lparr>shape = newShape, elementType = outElemType\<rparr>)))
         else Inr (input_t, ir))"

text \<open>Lines 255-297: the loop over the uses; the reshape is built per consumer.\<close>

fun multiBroadcastUses ::
    "IR \<Rightarrow> nat \<Rightarrow> Value \<Rightarrow> nat list \<Rightarrow> crash + (LogicalResult \<times> IR)" where
  "multiBroadcastUses ir op input_t [] = Inr (Success, ir)"
| "multiBroadcastUses ir op input_t (expandedOp # uses) =
     (if expandedOp = op then multiBroadcastUses ir op input_t uses
      else andThen (isBroadcastable ir expandedOp op) (\<lambda>(ok, ir1).
        if ok
        then andThen (multiBroadcastOperand ir1 input_t (resultType (ops ir1 ! expandedOp)))
               (\<lambda>(newOperand, ir2).
                  multiBroadcastUses (rewireUse ir2 expandedOp (getResult ir2 op) newOperand)
                    op input_t uses)
        else Inr (Failure, ir1)))"

text \<open>Lines 246-301.\<close>

definition MultiBroadcastConverter :: "IR \<Rightarrow> nat \<Rightarrow> crash + (LogicalResult \<times> IR)" where
  "MultiBroadcastConverter ir opId =
     andThen (at (ops ir) opId) (\<lambda>op.
     andThen (at (operands op) 0) (\<lambda>input_t.
     andThen (multiBroadcastUses ir opId input_t (getUses ir (getResult ir opId)))
       (\<lambda>(res, ir1).
          case res of
            Success \<Rightarrow> Inr (Success, eraseOp ir1 opId)
          | _ \<Rightarrow> Inr (res, ir1))))"

subsection \<open>The inference helper and the cast helper\<close>

text \<open>
  The shape inference of the target operations (\<^verbatim>\<open>inferReturnTypeComponents\<close>) is not part
  of the lowering's source: it is a parameter, a function from the operation's kind, the
  types of its operands and its attributes to the inferred extents, or \<open>None\<close> when the
  inference fails.
\<close>

type_synonym inferFn = "opKind \<Rightarrow> RankedTensorType list \<Rightarrow> (string \<times> attr) list \<Rightarrow> int64 list option"

text \<open>
  Lines 42-58. The operation is stamped with the inferred extents and the element type the
  caller passes; a failed inference fails the assertion of line 53.
\<close>

definition tosaOp ::
    "opKind \<Rightarrow> elemType \<Rightarrow> Value list \<Rightarrow> (string \<times> attr) list \<Rightarrow> int64 list \<Rightarrow> Operation" where
  "tosaOp k elemType args as dims =
     \<lparr>kind = k, operands = args, attrs = as,
      resultType = \<lparr>shape = dims, elementType = elemType\<rparr>\<rparr>"

definition createOpAndInfer ::
    "inferFn \<Rightarrow> IR \<Rightarrow> opKind \<Rightarrow> elemType \<Rightarrow> Value list \<Rightarrow> (string \<times> attr) list
     \<Rightarrow> crash + (Value \<times> IR)" where
  "createOpAndInfer infer ir k elemType args as =
     (case infer k (map getType args) as of
        None \<Rightarrow> Inl AssertionFailed
      | Some dims \<Rightarrow> Inr (create ir (tosaOp k elemType args as dims)))"

text \<open>Lines 60-67: the input's shape with the new element type.\<close>

definition castOp :: "elemType \<Rightarrow> Value \<Rightarrow> Operation" where
  "castOp resElementType input =
     \<lparr>kind = tosa_cast, operands = [input], attrs = [],
      resultType = (getType input)\<lparr>elementType := resElementType\<rparr>\<rparr>"

definition createCastOp :: "IR \<Rightarrow> elemType \<Rightarrow> Value \<Rightarrow> Value \<times> IR" where
  "createCastOp ir resElementType input = create ir (castOp resElementType input)"

text \<open>An operation's declared shape agrees with the oracle on its kind, operand types and attributes.\<close>

definition shapeConsistent :: "inferFn \<Rightarrow> Operation \<Rightarrow> bool" where
  "shapeConsistent infer op =
     (infer (kind op) (map getType (operands op)) (attrs op) = Some (shape (resultType op)))"

subsection \<open>Convolution (ConvConverter)\<close>

text \<open>Lines 74-79.\<close>

definition getZeroBias :: "IR \<Rightarrow> elemType \<Rightarrow> int64 \<Rightarrow> Value \<times> IR" where
  "getZeroBias ir elemType filterOutputChannels =
     (let biasTy = \<lparr>shape = [filterOutputChannels], elementType = elemType\<rparr>
      in create ir \<lparr>kind = arith_constant, operands = [],
                    attrs = [(''value'', ZeroAttr biasTy)], resultType = biasTy\<rparr>)"

text \<open>\<^verbatim>\<open>attr[i].dyn_cast<IntegerAttr>().getInt()\<close> of lines 138-145.\<close>

definition intAt :: "attr list \<Rightarrow> nat \<Rightarrow> crash + int64" where
  "intAt xs i = andThen (at xs i) (\<lambda>a. castIntegerAttr (Some a))"

definition isInteger :: "elemType \<Rightarrow> nat \<Rightarrow> bool" where
  "isInteger t w = (t = IntegerType w)"

text \<open>
  Lines 101-181. The target convolution is created from its three operands and its result
  type only; its attributes are set on the created operation afterwards.
\<close>

definition ConvConverter :: "IR \<Rightarrow> nat \<Rightarrow> crash + (LogicalResult \<times> IR)" where
  "ConvConverter ir opId =
     andThen (at (ops ir) opId) (\<lambda>op.
     andThen (at (operands op) 0) (\<lambda>input_t.
     andThen (at (operands op) 1) (\<lambda>filter_t.
     (let elementTy = elementType (getType input_t);
          outputTy = resultType op;
          outShape = shape outputTy
      in
     andThen (getRank4TransposeOp ir input_t NCHW2NHWC) (\<lambda>(input_t, ir1).
     andThen (getRank4TransposeOp ir1 filter_t NCHW2NHWC) (\<lambda>(filter_t, ir2).
     andThen (at outShape 0) (\<lambda>o0.
     andThen (at outShape 2) (\<lambda>o2.
     andThen (at outShape 3) (\<lambda>o3.
     andThen (at outShape 1) (\<lambda>o1.
     (let newOutTy = \<lparr>shape = [o0, o2, o3, o1], elementType = elementType outputTy\<rparr> in
     andThen (at (shape (getType filter_t)) 0) (\<lambda>filterOutputChannels.
     (let (bias, ir3) = getZeroBias ir2 (elementType outputTy) filterOutputChannels;
          copId = length (ops ir3);
          (cop, ir4) = create ir3
            \<lparr>kind = tosa_conv2d, operands = [input_t, filter_t, bias], attrs = [],
             resultType = newOutTy\<rparr>
      in
     andThen (castArrayAttr (getAttr op ''padding'')) (\<lambda>padAttr.
     andThen (castArrayAttr (getAttr op ''stride'')) (\<lambda>strideAttr.
     andThen (castArrayAttr (getAttr op ''dilation'')) (\<lambda>dilationAttr.
     andThen (intAt padAttr 0) (\<lambda>padTop.
     andThen (intAt padAttr 1) (\<lambda>padBottom.
     andThen (intAt padAttr 2) (\<lambda>padLeft.
     andThen (intAt padAttr 3) (\<lambda>padRight.
     andThen (intAt strideAttr 0) (\<lambda>strideHeight.
     andThen (intAt strideAttr 1) (\<lambda>strideWidth.
     andThen (intAt dilationAttr 0) (\<lambda>dilationHeight.
     andThen (intAt dilationAttr 1) (\<lambda>dilationWidth.
     (let ir5 = setAttr ir4 copId ''dilation'' (DenseI64ArrayAttr [dilationHeight, dilationWidth]);
          ir6 = setAttr ir5 copId ''stride'' (DenseI64ArrayAttr [strideHeight, strideWidth]);
          ir7 = setAttr ir6 copId ''pad''
                  (DenseI64ArrayAttr [padTop, padBottom, padLeft, padRight]);
          ir8 = copyOptionalAttrs ir7 op copId;
          ir9 = (if isInteger elementTy 8
                 then setAttr ir8 copId ''quantization_info'' (ConvOpQuantizationAttr 0 0)
                 else ir8)
      in
     andThen (getRank4TransposeOp ir9 cop NHWC2NCHW) (\<lambda>(top, ir10).
       Inr (Success, replaceOp ir10 opId top)))))))))))))))))))))))))))"

subsection \<open>Softmax, reshape, reduce-mean, quantize-linear\<close>

text \<open>Lines 402-427: six operations, each built through the inference helper.\<close>

definition SoftmaxConverter :: "inferFn \<Rightarrow> IR \<Rightarrow> nat \<Rightarrow> crash + (LogicalResult \<times> IR)" where
  "SoftmaxConverter infer ir opId =
     andThen (at (ops ir) opId) (\<lambda>op.
     andThen (at (operands op) 0) (\<lambda>input.
     andThen (castIntegerAttr (getAttr op ''axis'')) (\<lambda>axis.
     (let axisAttr = [(''axis'', IntegerAttr axis)];
          elementTy = elementType (getType input)
      in
     andThen (createOpAndInfer infer ir tosa_reduce_max elementTy [input] axisAttr)
       (\<lambda>(tosaMax, ir1).
     andThen (createOpAndInfer infer ir1 tosa_sub elementTy [input, tosaMax] [])
       (\<lambda>(tosaSub, ir2).
     andThen (createOpAndInfer infer ir2 tosa_exp elementTy [tosaSub] [])
       (\<lambda>(tosaExp, ir3).
     andThen (createOpAndInfer infer ir3 tosa_reduce_sum elementTy [tosaExp] axisAttr)
       (\<lambda>(tosaReduceSum, ir4).
     andThen (createOpAndInfer infer ir4 tosa_reciprocal elementTy [tosaReduceSum] [])
       (\<lambda>(tosaReciprocal, ir5).
     andThen (createOpAndInfer infer ir5 tosa_mul elementTy [tosaExp, tosaReciprocal]
                [(''shift'', IntegerAttr 0)])
       (\<lambda>(tosaMul, ir6).
       Inr (Success, replaceOp ir6 opId tosaMul)))))))))))"

text \<open>Lines 434-452: the target reshape takes the dims attribute and the source result type.\<close>

fun dimsOf :: "attr list \<Rightarrow> crash + int64 list" where
  "dimsOf [] = Inr []"
| "dimsOf (dim # dims) =
     andThen (castIntegerAttr (Some dim)) (\<lambda>d.
     andThen (dimsOf dims) (\<lambda>ds. Inr (d # ds)))"

definition ReshapeConverter :: "IR \<Rightarrow> nat \<Rightarrow> crash + (LogicalResult \<times> IR)" where
  "ReshapeConverter ir opId =
     andThen (at (ops ir) opId) (\<lambda>op.
     andThen (castArrayAttr (getAttr op ''dims'')) (\<lambda>dims.
     andThen (at (operands op) 0) (\<lambda>input.
     andThen (dimsOf dims) (\<lambda>newShape.
     (let (rop, ir1) = create ir (reshapeOp input newShape (resultType op))
      in Inr (Success, replaceOp ir1 opId rop))))))"

definition isIntOrIndex :: "elemType \<Rightarrow> bool" where
  "isIntOrIndex t = (case t of FloatType _ \<Rightarrow> False | _ \<Rightarrow> True)"

text \<open>
  Lines 460-478. The constant holds the extent of the axis: as an integer attribute for an
  integer or index element type, else as the float attribute of that integer's value.
\<close>

definition numElementsConst :: "elemType \<Rightarrow> int64 \<Rightarrow> Operation" where
  "numElementsConst elemTy extent =
     (let numElements = (if isIntOrIndex elemTy then IntegerAttr extent
                         else FloatAttr extent);
          tensorType = \<lparr>shape = [1], elementType = elemTy\<rparr>
      in \<lparr>kind = tosa_const, operands = [],
          attrs = [(''value'', DenseElementsAttr tensorType [numElements])],
          resultType = tensorType\<rparr>)"

definition createNumElementsTosaConst :: "IR \<Rightarrow> Value \<Rightarrow> int64 \<Rightarrow> crash + (Value \<times> IR)" where
  "createNumElementsTosaConst ir inputTensor axis =
     (let elementTy = elementType (getType inputTensor) in
      andThen (at (shape (getType inputTensor)) (unat axis)) (\<lambda>extent.
        Inr (create ir (numElementsConst elementTy extent))))"

text \<open>Lines 480-501.\<close>

definition ReduceMeanConverter :: "inferFn \<Rightarrow> IR \<Rightarrow> nat \<Rightarrow> crash + (LogicalResult \<times> IR)" where
  "ReduceMeanConverter infer ir opId =
     andThen (at (ops ir) opId) (\<lambda>op.
     andThen (castArrayAttr (getAttr op ''axes'')) (\<lambda>axes.
     if length axes \<noteq> 1
     then Inr (EmitError ''We only support single axes reductions!'', ir)
     else
     andThen (intAt axes 0) (\<lambda>axis.
     andThen (at (operands op) 0) (\<lambda>input.
     (let elementTy = elementType (getType input) in
     andThen (createNumElementsTosaConst ir input axis) (\<lambda>(tosaConstantNumElements, ir1).
     andThen (createOpAndInfer infer ir1 tosa_reciprocal elementTy
                [tosaConstantNumElements] [])
       (\<lambda>(tosaReciprocal, ir2).
     andThen (createOpAndInfer infer ir2 tosa_mul elementTy [input, tosaReciprocal]
                [(''shift'', IntegerAttr 0)])
       (\<lambda>(tosaMul, ir3).
     andThen (createOpAndInfer infer ir3 tosa_reduce_sum elementTy [tosaMul]
                [(''axis'', IntegerAttr axis)])
       (\<lambda>(tosaReduceSum, ir4).
       Inr (Success, replaceOp ir4 opId tosaReduceSum))))))))))"

text \<open>Lines 509-534. The bias is the optional third operand.\<close>

definition QuantizeLinearConverter ::
    "inferFn \<Rightarrow> IR \<Rightarrow> nat \<Rightarrow> crash + (LogicalResult \<times> IR)" where
  "QuantizeLinearConverter infer ir opId =
     andThen (at (ops ir) opId) (\<lambda>op.
     andThen (at (operands op) 0) (\<lambda>input.
     andThen (at (operands op) 1) (\<lambda>scale.
     (let elementTy = elementType (getType input) in
     andThen (if 2 < length (operands op)
              then createOpAndInfer infer ir tosa_add elementTy [input, operands op ! 2] []
              else Inr (input, ir))
       (\<lambda>(shifted, ir1).
     (let intermediateElementType = FloatType 32;
          (upCast, ir2) = createCastOp ir1 intermediateElementType shifted
      in
     andThen (createOpAndInfer infer ir2 tosa_mul intermediateElementType [upCast, scale]
                [(''shift'', IntegerAttr 0)])
       (\<lambda>(scaled, ir3).
     (let destElementType = IntegerType 8;
          (downCast, ir4) = createCastOp ir3 destElementType scaled
      in Inr (Success, replaceOp ir4 opId downCast)))))))))"

section \<open>Example inputs\<close>

definition f32 :: "int64 list \<Rightarrow> RankedTensorType" where
  "f32 dims = \<lparr>shape = dims, elementType = FloatType 32\<rparr>"

text \<open>An IR holding one dot over two block arguments of the given shapes.\<close>

definition dotIR :: "int64 list \<Rightarrow> int64 list \<Rightarrow> int64 list \<Rightarrow> IR" where
  "dotIR dimsA dimsB dimsOut =
     \<lparr>ops = [\<lparr>kind = migraphx_dot,
              operands = [BlockArgument 0 \<lparr>shape = dimsA, elementType = FloatType 32\<rparr>,
                          BlockArgument 1 \<lparr>shape = dimsB, elementType = FloatType 32\<rparr>],
              attrs = [],
              resultType = \<lparr>shape = dimsOut, elementType = FloatType 32\<rparr>\<rparr>],
      erased = [], replaced = [], constructed = []\<rparr>"

text \<open>
  A broadcast of rank 1 to rank 1 (no reshape) whose result feeds, in the order of creation,
  a one-operand operation and then a two-operand operation.
\<close>

definition broadcastFailIR :: IR where
  "broadcastFailIR =
     \<lparr>ops = [\<lparr>kind = migraphx_broadcast, operands = [BlockArgument 0 (f32 [4])],
              attrs = [(''axis'', IntegerAttr 0)], resultType = f32 [4]\<rparr>,
             \<lparr>kind = migraphx_other ''exp'', operands = [OpResult 0 (f32 [4])],
              attrs = [], resultType = f32 [4]\<rparr>,
             \<lparr>kind = migraphx_other ''add'',
              operands = [BlockArgument 1 (f32 [4]), OpResult 0 (f32 [4])],
              attrs = [], resultType = f32 [4]\<rparr>],
      erased = [], replaced = [], constructed = []\<rparr>"

text \<open>A broadcast of a rank-1 input along axis 1 of a rank-4 result, consumed by an add.\<close>

definition broadcastIR :: IR where
  "broadcastIR =
     \<lparr>ops = [\<lparr>kind = migraphx_broadcast, operands = [BlockArgument 0 (f32 [4])],
              attrs = [(''axis'', IntegerAttr 1)], resultType = f32 [2, 4, 3, 3]\<rparr>,
             \<lparr>kind = migraphx_other ''add'',
              operands = [OpResult 0 (f32 [2, 4, 3, 3]), BlockArgument 1 (f32 [2, 4, 3, 3])],
              attrs = [], resultType = f32 [2, 4, 3, 3]\<rparr>],
      erased = [], replaced = [], constructed = []\<rparr>"


text \<open>
  Two convolutions of a [1,3,8,8] input with a [4,3,3,3] filter and no padding: with stride
  1 the output is [1,4,6,6], with stride 2 it is [1,4,3,3].
\<close>

definition convIR :: "int64 \<Rightarrow> int64 list \<Rightarrow> IR" where
  "convIR stride outShape =
     \<lparr>ops = [\<lparr>kind = migraphx_convolution,
              operands = [BlockArgument 0 (f32 [1, 3, 8, 8]), BlockArgument 1 (f32 [4, 3, 3, 3])],
              attrs = [(''padding'', ArrayAttr [IntegerAttr 0, IntegerAttr 0,
                                                  IntegerAttr 0, IntegerAttr 0]),
                       (''stride'', ArrayAttr [IntegerAttr stride, IntegerAttr stride]),
                       (''dilation'', ArrayAttr [IntegerAttr 1, IntegerAttr 1])],
              resultType = f32 outShape\<rparr>],
      erased = [], replaced = [], constructed = []\<rparr>"

text \<open>What a rewrite constructed, and whether it succeeded.\<close>

definition constructedBy :: "crash + (LogicalResult \<times> IR) \<Rightarrow> Operation list" where
  "constructedBy r = (case r of Inl _ \<Rightarrow> [] | Inr (_, ir) \<Rightarrow> constructed ir)"

definition succeeded :: "crash + (LogicalResult \<times> IR) \<Rightarrow> bool" where
  "succeeded r = (case r of Inr (Success, _) \<Rightarrow> True | _ \<Rightarrow> False)"

text \<open>An inference that answers the shape of the first operand, for the examples.\<close>

definition firstOperandShape :: inferFn where
  "firstOperandShape k tys as = (case tys of [] \<Rightarrow> None | t # _ \<Rightarrow> Some (shape t))"

definition reduceMeanIR :: "attr list \<Rightarrow> IR" where
  "reduceMeanIR axes =
     \<lparr>ops = [\<lparr>kind = migraphx_reduce_mean, operands = [BlockArgument 0 (f32 [2, 3, 4])],
              attrs = [(''axes'', ArrayAttr axes)], resultType = f32 [2, 1, 4]\<rparr>],
      erased = [], replaced = [], constructed = []\<rparr>"

definition quantizeLinearIR :: "Value list \<Rightarrow> IR" where
  "quantizeLinearIR bias =
     \<lparr>ops = [\<lparr>kind = migraphx_quantizelinear,
              operands = [BlockArgument 0 (f32 [2, 3]), BlockArgument 1 (f32 [2, 3])] @ bias,
              attrs = [],
              resultType = \<lparr>shape = [2, 3], elementType = IntegerType 8\<rparr>\<rparr>],
      erased = [], replaced = [], constructed = []\<rparr>"

definition softmaxIR :: IR where
  "softmaxIR =
     \<lparr>ops = [\<lparr>kind = migraphx_softmax, operands = [BlockArgument 0 (f32 [2, 3])],
              attrs = [(''axis'', IntegerAttr 1)], resultType = f32 [2, 3]\<rparr>],
      erased = [], replaced = [], constructed = []\<rparr>"

section \<open>Lemmas\<close>

subsection \<open>Simplification rules of the helpers\<close>

lemma andThen_Inr: "andThen (Inr x) f = f x"
  by (simp add: andThen_def)

lemma andThen_Inl: "andThen (Inl e) f = Inl e"
  by (simp add: andThen_def)

lemma at_in: "i < length xs \<Longrightarrow> at xs i = Inr (xs ! i)"
  by (simp add: at_def)

lemma at_out: "\<not> i < length xs \<Longrightarrow> at xs i = Inl IndexOutOfBounds"
  by (simp add: at_def)

lemma permutedShape_rank4:
  "permutedShape [a, b, c, d] NCHW2NHWC = Inr [a, c, d, b]"
  "permutedShape [a, b, c, d] NHWC2NCHW = Inr [a, d, b, c]"
  by (simp_all add: permutedShape_def NCHW2NHWC_def NHWC2NCHW_def andThen_def at_def)

lemma andThen_Inr_iff: "andThen m f = Inr y \<longleftrightarrow> (\<exists>x. m = Inr x \<and> f x = Inr y)"
  by (cases m) (simp_all add: andThen_def)

lemma at_Inl_iff: "at xs i = Inl e \<longleftrightarrow> \<not> i < length xs \<and> e = IndexOutOfBounds"
  by (auto simp: at_def)

lemma at_Inr_iff: "at xs i = Inr x \<longleftrightarrow> i < length xs \<and> x = xs ! i"
  by (auto simp: at_def)

text \<open>An unsigned subtraction that does not wrap is the subtraction of natural numbers.\<close>

lemma wrap_sub_le:
  fixes a b N :: nat
  assumes "b \<le> a" and "a < N"
  shows "(a + N - b) mod N = a - b"
proof -
  have "a + N - b = (a - b) + N"
    using assms by simp
  then have "(a + N - b) mod N = (a - b) mod N"
    by simp
  also have "\<dots> = a - b"
    using assms by simp
  finally show ?thesis .
qed

lemma size_t_sub_le: "b \<le> a \<Longrightarrow> a < 2 ^ 64 \<Longrightarrow> size_t_sub a b = a - b"
  unfolding size_t_sub_def by (rule wrap_sub_le)


subsection \<open>The rewriter's state and the inference helper\<close>

lemma getType_resultOf: "getType (resultOf i op) = resultType op"
  by (simp add: resultOf_def getType_def)

lemma appendOps_fields:
  "ops (appendOps ir new) = ops ir @ new"
  "constructed (appendOps ir new) = constructed ir @ new"
  "erased (appendOps ir new) = erased ir"
  "replaced (appendOps ir new) = replaced ir"
  by (simp_all add: appendOps_def)

lemma appendOps_appendOps: "appendOps (appendOps ir xs) ys = appendOps ir (xs @ ys)"
  by (simp add: appendOps_def)

lemma replaceOp_fields:
  "ops (replaceOp ir opId v) = ops ir"
  "constructed (replaceOp ir opId v) = constructed ir"
  "erased (replaceOp ir opId v) = erased ir"
  "replaced (replaceOp ir opId v) = replaced ir @ [(opId, v)]"
  by (simp_all add: replaceOp_def)

lemma createOpAndInfer_Some:
  "infer k (map getType args) as = Some dims \<Longrightarrow>
   createOpAndInfer infer ir k e args as
   = Inr (resultOf (length (ops ir)) (tosaOp k e args as dims),
          appendOps ir [tosaOp k e args as dims])"
  by (simp add: createOpAndInfer_def create_def)

lemma createOpAndInfer_None:
  "infer k (map getType args) as = None \<Longrightarrow>
   createOpAndInfer infer ir k e args as = Inl AssertionFailed"
  by (simp add: createOpAndInfer_def)

lemma createOpAndInfer_Inr_iff:
  "createOpAndInfer infer ir k e args as = Inr r \<longleftrightarrow>
   (\<exists>dims. infer k (map getType args) as = Some dims \<and>
      r = (resultOf (length (ops ir)) (tosaOp k e args as dims),
           appendOps ir [tosaOp k e args as dims]))"
  by (cases "infer k (map getType args) as")
     (auto simp: createOpAndInfer_def create_def)

lemma shapeConsistent_tosaOp:
  "shapeConsistent infer (tosaOp k e args as dims) \<longleftrightarrow> infer k (map getType args) as = Some dims"
  by (simp add: shapeConsistent_def tosaOp_def)

lemma tosaOp_fields:
  "kind (tosaOp k e args as dims) = k"
  "operands (tosaOp k e args as dims) = args"
  "attrs (tosaOp k e args as dims) = as"
  "resultType (tosaOp k e args as dims) = \<lparr>shape = dims, elementType = e\<rparr>"
  by (simp_all add: tosaOp_def)

lemma numElementsConst_kind: "kind (numElementsConst e extent) = tosa_const"
  by (simp add: numElementsConst_def Let_def)

lemma castOp_fields:
  "kind (castOp t v) = tosa_cast"
  "operands (castOp t v) = [v]"
  "resultType (castOp t v) = (getType v)\<lparr>elementType := t\<rparr>"
  by (simp_all add: castOp_def)

lemma setAttr_fields:
  "length (ops (setAttr ir i name a)) = length (ops ir)"
  "constructed (setAttr ir i name a) = constructed ir"
  "erased (setAttr ir i name a) = erased ir"
  "replaced (setAttr ir i name a) = replaced ir"
  by (simp_all add: setAttr_def)

lemma getRank4TransposeOp_permuted:
  assumes "permutedShape (shape (getType input)) permutation = Inr newShape"
  shows "getRank4TransposeOp ir input permutation =
           Inr (resultOf (Suc (length (ops ir)))
                  (transposeOp input (resultOf (length (ops ir)) (permutationConst permutation))
                     newShape),
                appendOps ir
                  [permutationConst permutation,
                   transposeOp input (resultOf (length (ops ir)) (permutationConst permutation))
                     newShape])"
  by (simp add: getRank4TransposeOp_def create_def assms andThen_Inr appendOps_fields
                appendOps_appendOps)

subsection \<open>The loops in closed form\<close>

lemma batchSizeLoop_in:
  "bound \<le> length dims \<Longrightarrow> i \<le> bound \<Longrightarrow>
   batchSizeLoop dims bound i acc = Inr (acc * prod_list (drop i (take bound dims)))"
proof (induction "bound - i" arbitrary: i acc)
  case 0
  then show ?case by (simp add: batchSizeLoop.simps)
next
  case (Suc n)
  then have lt: "i < bound" and il: "i < length dims" by simp_all
  have d: "drop i (take bound dims) = dims ! i # drop (Suc i) (take bound dims)"
    using lt il by (simp add: Cons_nth_drop_Suc [symmetric])
  have "batchSizeLoop dims bound i acc = batchSizeLoop dims bound (Suc i) (acc * dims ! i)"
    using lt il by (subst batchSizeLoop.simps) simp
  also have "\<dots> = Inr (acc * dims ! i * prod_list (drop (Suc i) (take bound dims)))"
    using Suc by (intro Suc.hyps(1)) simp_all
  finally show ?case by (simp add: d mult.assoc)
qed

lemma batchSizeLoop_out:
  "length dims < bound \<Longrightarrow> i \<le> length dims \<Longrightarrow>
   batchSizeLoop dims bound i acc = Inl IndexOutOfBounds"
proof (induction "length dims - i" arbitrary: i acc)
  case 0
  then show ?case by (subst batchSizeLoop.simps) simp
next
  case (Suc n)
  then have "batchSizeLoop dims bound i acc = batchSizeLoop dims bound (Suc i) (acc * dims ! i)"
    by (subst batchSizeLoop.simps) simp
  also have "\<dots> = Inl IndexOutOfBounds"
    using Suc by (intro Suc.hyps(1)) simp_all
  finally show ?case .
qed

lemma batchSize_of_rank:
  assumes "2 \<le> length dims" and "length dims < 2 ^ 64"
  shows "batchSizeLoop dims (size_t_sub (length dims) 2) 0 1
         = Inr (prod_list (take (length dims - 2) dims))"
  using assms by (simp add: size_t_sub_le batchSizeLoop_in)

lemma pushOnes_replicate: "pushOnes outRank i newShape = newShape @ replicate (outRank - i) 1"
proof (induction "outRank - i" arbitrary: i newShape)
  case 0
  then show ?case by (simp add: pushOnes.simps)
next
  case (Suc n)
  then have "pushOnes outRank i newShape = pushOnes outRank (Suc i) (newShape @ [1])"
    by (subst pushOnes.simps) simp
  also have "\<dots> = (newShape @ [1]) @ replicate (outRank - Suc i) 1"
    using Suc by (intro Suc.hyps(1)) simp
  also have "\<dots> = newShape @ replicate (Suc (outRank - Suc i)) 1"
    by simp
  also have "Suc (outRank - Suc i) = outRank - i"
    using Suc by simp
  finally show ?case .
qed


lemma copyLeading_out:
  "length inShape < bound \<Longrightarrow> i \<le> length inShape \<Longrightarrow>
   copyLeading inShape bound i newShape = Inl IndexOutOfBounds"
proof (induction "length inShape - i" arbitrary: i newShape)
  case 0
  then show ?case by (subst copyLeading.simps) simp
next
  case (Suc n)
  then have "copyLeading inShape bound i newShape
             = copyLeading inShape bound (Suc i) (newShape @ [inShape ! i])"
    by (subst copyLeading.simps) simp
  also have "\<dots> = Inl IndexOutOfBounds"
    using Suc by (intro Suc.hyps(1)) simp_all
  finally show ?case .
qed

subsection \<open>The flattening path of the dot\<close>

lemma flatDims_in:
  "2 \<le> outRank \<Longrightarrow> outRank \<le> length dims \<Longrightarrow> outRank < 2 ^ 64 \<Longrightarrow>
   flatDims b dims outRank = Inr [b, dims ! (outRank - 2), dims ! (outRank - 1)]"
  by (auto simp: flatDims_def size_t_sub_le andThen_def at_def)

lemma flatDims_out:
  assumes "length dims < outRank" and "outRank < 2 ^ 64"
  shows "flatDims b dims outRank = Inl IndexOutOfBounds"
proof (cases "2 \<le> outRank")
  case True
  with assms have "size_t_sub outRank 1 = outRank - 1"
    by (simp add: size_t_sub_le)
  with assms True have "\<not> size_t_sub outRank 1 < length dims"
    by simp
  then show ?thesis
    by (simp add: flatDims_def andThen_def at_def)
next
  case False
  with assms have "outRank = 1" and "length dims = 0" by arith+
  then have "outRank = 1" and "dims = []" by simp_all
  then show ?thesis
    by (simp add: flatDims_def andThen_def at_def)
qed

lemma flatDims_Inr_rank:
  "flatDims b dims outRank = Inr r \<Longrightarrow> outRank < 2 ^ 64 \<Longrightarrow> outRank \<le> length dims"
  using flatDims_out [of dims outRank b] by (cases "length dims < outRank") simp_all

lemma dotFlatten_Inr_flatDims:
  assumes "dotFlatten orgDimsA orgDimsB orgOutDims = Inr f"
  shows "\<exists>ba bb ra rb. flatDims ba orgDimsA (length orgOutDims) = Inr ra \<and>
               flatDims bb orgDimsB (length orgOutDims) = Inr rb"
  using assms unfolding dotFlatten_def Let_def andThen_Inr_iff by blast

lemma DotConverter_dotIR_Inr:
  assumes "needsFlatten orgDimsA orgDimsB orgOutDims"
    and "DotConverter (dotIR orgDimsA orgDimsB orgOutDims) 0 = Inr r"
  shows "\<exists>f. dotFlatten orgDimsA orgDimsB orgOutDims = Inr f"
  using assms
  by (auto simp: DotConverter_def dotIR_def at_def andThen_Inr getType_def Let_def andThen_Inr_iff)

text \<open>
  When every read is in bounds the flattening path does what lines 351-364 say: equal batch
  sizes keep the three flattened shapes, a unit batch of B folds the batch of A and of the
  output into their rows, any other mismatch is the diagnostic.
\<close>

lemma dotFlatten_in_bounds:
  assumes "2 \<le> length orgOutDims"
    and "length orgOutDims \<le> length orgDimsA" and "length orgDimsA < 2 ^ 64"
    and "length orgOutDims \<le> length orgDimsB" and "length orgDimsB < 2 ^ 64"
  shows "dotFlatten orgDimsA orgDimsB orgOutDims =
    (let R = length orgOutDims;
         batchSizeA = prod_list (take (length orgDimsA - 2) orgDimsA);
         batchSizeB = prod_list (take (length orgDimsB - 2) orgDimsB);
         batchSizeC = prod_list (take (R - 2) orgOutDims)
     in if batchSizeA \<noteq> batchSizeB
        then (if batchSizeB = 1
              then Inr (Flattened [1, orgDimsA ! (R - 2) * batchSizeA, orgDimsA ! (R - 1)]
                                  [batchSizeB, orgDimsB ! (R - 2), orgDimsB ! (R - 1)]
                                  [1, orgOutDims ! (R - 2) * batchSizeC, orgOutDims ! (R - 1)])
              else Inr CannotBroadcast)
        else Inr (Flattened [batchSizeA, orgDimsA ! (R - 2), orgDimsA ! (R - 1)]
                            [batchSizeB, orgDimsB ! (R - 2), orgDimsB ! (R - 1)]
                            [batchSizeC, orgOutDims ! (R - 2), orgOutDims ! (R - 1)]))"
proof -
  have R: "length orgOutDims < 2 ^ 64" using assms by simp
  have A: "2 \<le> length orgDimsA" and B: "2 \<le> length orgDimsB" using assms by simp_all
  have bC: "batchSizeLoop orgOutDims (size_t_sub (length orgOutDims) 2) 0 1
            = Inr (prod_list (take (length orgOutDims - 2) orgOutDims))"
    using assms(1) R by (rule batchSize_of_rank)
  have bA: "batchSizeLoop orgDimsA (size_t_sub (length orgDimsA) 2) 0 1
            = Inr (prod_list (take (length orgDimsA - 2) orgDimsA))"
    using A assms(3) by (rule batchSize_of_rank)
  have bB: "batchSizeLoop orgDimsB (size_t_sub (length orgDimsB) 2) 0 1
            = Inr (prod_list (take (length orgDimsB - 2) orgDimsB))"
    using B assms(5) by (rule batchSize_of_rank)
  have fA: "\<And>b. flatDims b orgDimsA (length orgOutDims)
            = Inr [b, orgDimsA ! (length orgOutDims - 2), orgDimsA ! (length orgOutDims - 1)]"
    using assms(1,2) R by (rule flatDims_in)
  have fB: "\<And>b. flatDims b orgDimsB (length orgOutDims)
            = Inr [b, orgDimsB ! (length orgOutDims - 2), orgDimsB ! (length orgOutDims - 1)]"
    using assms(1,4) R by (rule flatDims_in)
  have fC: "\<And>b. flatDims b orgOutDims (length orgOutDims)
            = Inr [b, orgOutDims ! (length orgOutDims - 2), orgOutDims ! (length orgOutDims - 1)]"
    using assms(1) order_refl R by (rule flatDims_in)
  show ?thesis
    unfolding dotFlatten_def Let_def bA bB bC fA fB fC andThen_Inr
    by (simp add: foldBatch_def)
qed

lemmas dot_eval = DotConverter_def dotIR_def at_def andThen_def getType_def needsFlatten_def
  dotFlatten_def flatDims_def foldBatch_def size_t_sub_def batchSizeLoop.simps create_def
  reshapeOp_def copyOptionalAttrs_def getAttr_def replaceOp_def resultOf_def appendOps_def Let_def

subsection \<open>Broadcast and multi-broadcast\<close>

lemma replicate_numeral: "replicate (numeral k) x = x # replicate (pred_numeral k) x"
  by (simp add: numeral_eq_Suc)

lemma alignByAxis_in:
  "inShape \<noteq> [] \<Longrightarrow> unat axis < outRank \<Longrightarrow>
   alignByAxis outRank axis inShape = Inr ((replicate outRank 1)[unat axis := inShape ! 0])"
  by (simp add: alignByAxis_def pushOnes_replicate at_def andThen_def Let_def)


lemmas broadcast_eval = BroadcastConverter_def MultiBroadcastConverter_def broadcastOperand_def
  multiBroadcastOperand_def alignByAxis_def alignLeading_def isBroadcastable_def getUses_def
  rewireUse_def setOperand_def getResult_def getAttr_def castIntegerAttr_def eraseOp_def
  create_def reshapeOp_def at_def andThen_def getType_def uint32_sub_def Let_def
  resultOf_def appendOps_def pushOnes.simps copyLeading.simps

subsection \<open>What the rules construct\<close>

lemma convIR_fields:
  "ops (convIR stride outShape) ! 0 =
     \<lparr>kind = migraphx_convolution,
      operands = [BlockArgument 0 (f32 [1, 3, 8, 8]), BlockArgument 1 (f32 [4, 3, 3, 3])],
      attrs = [(''padding'', ArrayAttr [IntegerAttr 0, IntegerAttr 0,
                                          IntegerAttr 0, IntegerAttr 0]),
               (''stride'', ArrayAttr [IntegerAttr stride, IntegerAttr stride]),
               (''dilation'', ArrayAttr [IntegerAttr 1, IntegerAttr 1])],
      resultType = f32 outShape\<rparr>"
  "length (ops (convIR stride outShape)) = 1"
  "constructed (convIR stride outShape) = []"
  by (simp_all add: convIR_def)

lemmas conv_eval = ConvConverter_def getRank4TransposeOp_def permutationConst_def
  transposeOp_def permutedShape_def NCHW2NHWC_def
  NHWC2NCHW_def create_def getType_resultOf appendOps_fields appendOps_appendOps
  getZeroBias_def castArrayAttr_def intAt_def castIntegerAttr_def copyOptionalAttrs_def
  getAttr_def isInteger_def at_in andThen_Inr Let_def convIR_fields setAttr_fields
  replaceOp_fields constructedBy_def succeeded_def f32_def getType_def resultOf_def

text \<open>
  The eight operations the convolution rule constructs on the example, each as it was
  when constructed: the target convolution is created with no attribute (its dilation,
  stride and pad are set afterwards, lines 149-154) and with the permuted shape of the
  source operation's result.
\<close>

lemma conv_constructed:
  "constructedBy (ConvConverter (convIR stride [a, b, c, d]) 0) =
     [\<lparr>kind = arith_constant, operands = [],
       attrs = [(''value'', DenseIntElementsAttr [0, 2, 3, 1])],
       resultType = \<lparr>shape = [4], elementType = IntegerType 64\<rparr>\<rparr>,
      \<lparr>kind = tosa_transpose,
       operands = [BlockArgument 0 (f32 [1, 3, 8, 8]),
                   OpResult 1 \<lparr>shape = [4], elementType = IntegerType 64\<rparr>],
       attrs = [], resultType = f32 [1, 8, 8, 3]\<rparr>,
      \<lparr>kind = arith_constant, operands = [],
       attrs = [(''value'', DenseIntElementsAttr [0, 2, 3, 1])],
       resultType = \<lparr>shape = [4], elementType = IntegerType 64\<rparr>\<rparr>,
      \<lparr>kind = tosa_transpose,
       operands = [BlockArgument 1 (f32 [4, 3, 3, 3]),
                   OpResult 3 \<lparr>shape = [4], elementType = IntegerType 64\<rparr>],
       attrs = [], resultType = f32 [4, 3, 3, 3]\<rparr>,
      \<lparr>kind = arith_constant, operands = [],
       attrs = [(''value'', ZeroAttr (f32 [4]))], resultType = f32 [4]\<rparr>,
      \<lparr>kind = tosa_conv2d,
       operands = [OpResult 2 (f32 [1, 8, 8, 3]), OpResult 4 (f32 [4, 3, 3, 3]),
                   OpResult 5 (f32 [4])],
       attrs = [], resultType = f32 [a, c, d, b]\<rparr>,
      \<lparr>kind = arith_constant, operands = [],
       attrs = [(''value'', DenseIntElementsAttr [0, 3, 1, 2])],
       resultType = \<lparr>shape = [4], elementType = IntegerType 64\<rparr>\<rparr>,
      \<lparr>kind = tosa_transpose,
       operands = [OpResult 6 (f32 [a, c, d, b]),
                   OpResult 7 \<lparr>shape = [4], elementType = IntegerType 64\<rparr>],
       attrs = [], resultType = f32 [a, b, c, d]\<rparr>]"
  by (simp add: conv_eval)

lemma conv_succeeded: "succeeded (ConvConverter (convIR stride [a, b, c, d]) 0)"
  by (simp add: conv_eval)

lemma SoftmaxConverter_constructed:
  assumes "SoftmaxConverter infer ir opId = Inr (res, ir')"
  shows "\<exists>new. constructed ir' = constructed ir @ new \<and> length new = 6
               \<and> list_all (shapeConsistent infer) new"
  using assms unfolding SoftmaxConverter_def Let_def
  by (clarsimp simp: andThen_Inr_iff createOpAndInfer_Inr_iff appendOps_fields
        replaceOp_fields shapeConsistent_tosaOp)

lemma ReduceMeanConverter_constructed:
  assumes "ReduceMeanConverter infer ir opId = Inr (Success, ir')"
  shows "\<exists>c new. constructed ir' = constructed ir @ c # new \<and> kind c = tosa_const
               \<and> length new = 3 \<and> list_all (shapeConsistent infer) new"
  using assms unfolding ReduceMeanConverter_def createNumElementsTosaConst_def Let_def
  by (clarsimp simp: andThen_Inr_iff createOpAndInfer_Inr_iff appendOps_fields create_def
        replaceOp_fields shapeConsistent_tosaOp numElementsConst_kind split: if_splits)

lemma QuantizeLinearConverter_constructed:
  assumes "QuantizeLinearConverter infer ir opId = Inr (res, ir')"
  shows "\<exists>new. constructed ir' = constructed ir @ new
               \<and> list_all (\<lambda>op. kind op = tosa_cast \<or> shapeConsistent infer op) new"
proof (cases "2 < length (operands (ops ir ! opId))")
  case True
  with assms show ?thesis
    unfolding QuantizeLinearConverter_def createCastOp_def Let_def
    by (clarsimp simp: andThen_Inr_iff at_Inr_iff createOpAndInfer_Inr_iff appendOps_fields
          create_def replaceOp_fields shapeConsistent_tosaOp castOp_fields)
next
  case False
  with assms show ?thesis
    unfolding QuantizeLinearConverter_def createCastOp_def Let_def
    by (clarsimp simp: andThen_Inr_iff at_Inr_iff createOpAndInfer_Inr_iff appendOps_fields
          create_def replaceOp_fields shapeConsistent_tosaOp castOp_fields)
qed

lemmas rule_eval = SoftmaxConverter_def ReduceMeanConverter_def QuantizeLinearConverter_def
  createNumElementsTosaConst_def createCastOp_def createOpAndInfer_def create_def
  castArrayAttr_def castIntegerAttr_def intAt_def getAttr_def at_in andThen_Inr Let_def
  firstOperandShape_def getType_resultOf appendOps_fields appendOps_appendOps
  tosaOp_fields castOp_fields softmaxIR_def reduceMeanIR_def quantizeLinearIR_def
  f32_def getType_def succeeded_def constructedBy_def replaceOp_fields

subsection \<open>Failure paths that return before anything is created\<close>

lemma DotConverter_failure_unchanged:
  assumes "DotConverter ir opId = Inr (res, ir')" and "res \<noteq> Success"
  shows "res = EmitError ''tosa.matmul can't broadcast input.'' \<and> ir' = ir"
  using assms unfolding DotConverter_def Let_def create_def
  by (auto simp: andThen_Inr_iff split: if_splits flattened.splits)
     (metis flattened.exhaust)+

lemma ReduceMeanConverter_failure_unchanged:
  assumes "ReduceMeanConverter infer ir opId = Inr (res, ir')" and "res \<noteq> Success"
  shows "res = EmitError ''We only support single axes reductions!'' \<and> ir' = ir"
  using assms unfolding ReduceMeanConverter_def Let_def
  by (auto simp: andThen_Inr_iff split: if_splits)

section \<open>The claims\<close>

text \<open>
  C1 (as stated). For A of shape [2,3,4,5] and B of shape [1,5,6] the claim has A
  reshaped to [1,12,5]. On that input the rewrite reads B's shape at position 3, the
  output's rank minus one, which a shape of rank 3 does not have, and produces nothing; and
  where B's unit batch is written at rank 4, the batch 6 of A is folded into its 4 rows,
  which gives [1,24,5].
\<close>

theorem C1_dot_example_counterexample:
  "DotConverter (dotIR [2, 3, 4, 5] [1, 5, 6] [2, 3, 4, 6]) 0 = Inl IndexOutOfBounds
   \<and> dotFlatten [2, 3, 4, 5] [1, 1, 5, 6] [2, 3, 4, 6]
       = Inr (Flattened [1, 24, 5] [1, 5, 6] [1, 24, 6])
   \<and> [1, 24, 5] \<noteq> [1, 12, 5 :: int64]"
  by (simp add: dot_eval)

text \<open>
  C1 (amended). For the batched-dot lowering of operand A with shape [2,3,4,5] and an
  operand B of unit batch written at the same rank, shape [1,1,5,6], the rewrite reshapes
  A to [1,24,5] and B to [1,5,6], multiplies them into [1,24,6] and reshapes the result back
  to the output shape [2,3,4,6], which replaces the dot.
\<close>

theorem C1_dot_example_amended:
  "DotConverter (dotIR [2, 3, 4, 5] [1, 1, 5, 6] [2, 3, 4, 6]) 0 =
   Inr (Success,
     \<lparr>ops = ops (dotIR [2, 3, 4, 5] [1, 1, 5, 6] [2, 3, 4, 6]) @
        [reshapeOp (BlockArgument 0 \<lparr>shape = [2, 3, 4, 5], elementType = FloatType 32\<rparr>)
           [1, 24, 5] \<lparr>shape = [1, 24, 5], elementType = FloatType 32\<rparr>,
         reshapeOp (BlockArgument 1 \<lparr>shape = [1, 1, 5, 6], elementType = FloatType 32\<rparr>)
           [1, 5, 6] \<lparr>shape = [1, 5, 6], elementType = FloatType 32\<rparr>,
         \<lparr>kind = tosa_matmul,
          operands = [OpResult 1 \<lparr>shape = [1, 24, 5], elementType = FloatType 32\<rparr>,
                      OpResult 2 \<lparr>shape = [1, 5, 6], elementType = FloatType 32\<rparr>],
          attrs = [],
          resultType = \<lparr>shape = [1, 24, 6], elementType = FloatType 32\<rparr>\<rparr>,
         reshapeOp (OpResult 3 \<lparr>shape = [1, 24, 6], elementType = FloatType 32\<rparr>)
           [2, 3, 4, 6] \<lparr>shape = [2, 3, 4, 6], elementType = FloatType 32\<rparr>],
      erased = [],
      replaced = [(0, OpResult 4 \<lparr>shape = [2, 3, 4, 6], elementType = FloatType 32\<rparr>)],
      constructed =
        [reshapeOp (BlockArgument 0 \<lparr>shape = [2, 3, 4, 5], elementType = FloatType 32\<rparr>)
           [1, 24, 5] \<lparr>shape = [1, 24, 5], elementType = FloatType 32\<rparr>,
         reshapeOp (BlockArgument 1 \<lparr>shape = [1, 1, 5, 6], elementType = FloatType 32\<rparr>)
           [1, 5, 6] \<lparr>shape = [1, 5, 6], elementType = FloatType 32\<rparr>,
         \<lparr>kind = tosa_matmul,
          operands = [OpResult 1 \<lparr>shape = [1, 24, 5], elementType = FloatType 32\<rparr>,
                      OpResult 2 \<lparr>shape = [1, 5, 6], elementType = FloatType 32\<rparr>],
          attrs = [],
          resultType = \<lparr>shape = [1, 24, 6], elementType = FloatType 32\<rparr>\<rparr>,
         reshapeOp (OpResult 3 \<lparr>shape = [1, 24, 6], elementType = FloatType 32\<rparr>)
           [2, 3, 4, 6] \<lparr>shape = [2, 3, 4, 6], elementType = FloatType 32\<rparr>]\<rparr>)"
  by (simp add: dot_eval)

text \<open>
  C4 (the code at the failing input). A has shape [2,3,4,5] and batch size 6, B has shape
  [3,5,6] and batch size 3, the output has shape [2,3,4,6]: the batch sizes differ and B's
  is not 1. The flattened shape of B is built from B's extents at positions 2 and 3, and
  position 3 is outside B's shape: the rewrite aborts on that read, before the comparison
  of the batch sizes, and reports no diagnostic.
\<close>

theorem C4_dot_batch_mismatch_out_of_bounds:
  "batchSizeLoop [2, 3, 4, 5] (size_t_sub 4 2) 0 1 = Inr 6
   \<and> batchSizeLoop [3, 5, 6] (size_t_sub 3 2) 0 1 = Inr 3
   \<and> flatDims 3 [3, 5, 6] 4 = Inl IndexOutOfBounds
   \<and> DotConverter (dotIR [2, 3, 4, 5] [3, 5, 6] [2, 3, 4, 6]) 0 = Inl IndexOutOfBounds"
  by (simp add: dot_eval)

text \<open>
  C10. In the flattening path the rows and cols of an operand are read at positions
  outRank - 2 and outRank - 1 of that operand's shape, outRank being the rank of the dot's
  output: the flattened shape is the batch size followed by these two extents when the
  operand's rank is at least outRank (and outRank at least 2), and the read is out of
  bounds when the operand's rank is below outRank. So the flattening path, and the rewrite
  that takes it, return a result only when the rank of A and the rank of B are at least
  the rank of the output.
\<close>

theorem C10_dot_rows_cols_indexed_by_output_rank:
  assumes "length orgOutDims < 2 ^ 64"
  shows "(2 \<le> length orgOutDims \<and> length orgOutDims \<le> length dims \<longrightarrow>
            flatDims b dims (length orgOutDims)
              = Inr [b, dims ! (length orgOutDims - 2), dims ! (length orgOutDims - 1)])
       \<and> (length dims < length orgOutDims \<longrightarrow>
            flatDims b dims (length orgOutDims) = Inl IndexOutOfBounds)
       \<and> ((\<exists>f. dotFlatten orgDimsA orgDimsB orgOutDims = Inr f) \<longrightarrow>
            length orgOutDims \<le> length orgDimsA \<and> length orgOutDims \<le> length orgDimsB)
       \<and> (needsFlatten orgDimsA orgDimsB orgOutDims \<and>
            (\<exists>r. DotConverter (dotIR orgDimsA orgDimsB orgOutDims) 0 = Inr r) \<longrightarrow>
            length orgOutDims \<le> length orgDimsA \<and> length orgOutDims \<le> length orgDimsB)"
proof (intro conjI impI)
  assume "2 \<le> length orgOutDims \<and> length orgOutDims \<le> length dims"
  with assms show "flatDims b dims (length orgOutDims)
      = Inr [b, dims ! (length orgOutDims - 2), dims ! (length orgOutDims - 1)]"
    by (simp add: flatDims_in)
next
  assume "length dims < length orgOutDims"
  then show "flatDims b dims (length orgOutDims) = Inl IndexOutOfBounds"
    using assms by (rule flatDims_out)
next
  assume "\<exists>f. dotFlatten orgDimsA orgDimsB orgOutDims = Inr f"
  then obtain ba bb ra rb
    where "flatDims ba orgDimsA (length orgOutDims) = Inr ra"
      and "flatDims bb orgDimsB (length orgOutDims) = Inr rb"
    using dotFlatten_Inr_flatDims by blast
  with assms show "length orgOutDims \<le> length orgDimsA"
    and "length orgOutDims \<le> length orgDimsB"
    by (auto dest: flatDims_Inr_rank)
next
  assume "needsFlatten orgDimsA orgDimsB orgOutDims \<and>
          (\<exists>r. DotConverter (dotIR orgDimsA orgDimsB orgOutDims) 0 = Inr r)"
  then obtain f where "dotFlatten orgDimsA orgDimsB orgOutDims = Inr f"
    using DotConverter_dotIR_Inr by blast
  then obtain ba bb ra rb
    where "flatDims ba orgDimsA (length orgOutDims) = Inr ra"
      and "flatDims bb orgDimsB (length orgOutDims) = Inr rb"
    using dotFlatten_Inr_flatDims by blast
  with assms show "length orgOutDims \<le> length orgDimsA"
    and "length orgOutDims \<le> length orgDimsB"
    by (auto dest: flatDims_Inr_rank)
qed

theorem C10_dot_rows_cols_indexed_by_output_rank_witness:
  "length [2, 3, 4, 6 :: int64] < 2 ^ 64
   \<and> 2 \<le> length [2, 3, 4, 6 :: int64] \<and> length [2, 3, 4, 6 :: int64] \<le> length [2, 3, 4, 5 :: int64]
   \<and> flatDims 6 [2, 3, 4, 5] (length [2, 3, 4, 6 :: int64]) = Inr [6, 4, 5]
   \<and> length [1, 5, 6 :: int64] < length [2, 3, 4, 6 :: int64]
   \<and> flatDims 1 [1, 5, 6] (length [2, 3, 4, 6 :: int64]) = Inl IndexOutOfBounds
   \<and> dotFlatten [2, 3, 4, 5] [1, 1, 5, 6] [2, 3, 4, 6]
       = Inr (Flattened [1, 24, 5] [1, 5, 6] [1, 24, 6])
   \<and> needsFlatten [2, 3, 4, 5] [1, 1, 5, 6] [2, 3, 4, 6]
   \<and> length [2, 3, 4, 6 :: int64] \<le> length [1, 1, 5, 6 :: int64]"
  using C10_dot_rows_cols_indexed_by_output_rank
          [of "[2, 3, 4, 6]" "[2, 3, 4, 5]" 6 "[2, 3, 4, 5]" "[1, 1, 5, 6]"]
        C10_dot_rows_cols_indexed_by_output_rank
          [of "[2, 3, 4, 6]" "[1, 5, 6]" 1 "[2, 3, 4, 5]" "[1, 1, 5, 6]"]
  by (simp add: dot_eval)

text \<open>
  C2 (as stated). The claim covers the target convolution, whose result type the rule
  stamps by hand. Take the two example convolutions, of a [1,3,8,8] input with a [4,3,3,3]
  filter: stride 1 with output [1,4,6,6], stride 2 with output [1,4,3,3]. Both are
  rewritten. When the target convolution is constructed it has the same kind, the same
  operand types and the same (empty) attributes in both rewrites, and is stamped
  [1,6,6,4] in one and [1,3,3,4] in the other: no inference function, evaluated on the
  operation as constructed, agrees with both declared shapes.
\<close>

theorem C2_conv_stamp_counterexample:
  "succeeded (ConvConverter (convIR 1 [1, 4, 6, 6]) 0)
   \<and> succeeded (ConvConverter (convIR 2 [1, 4, 3, 3]) 0)
   \<and> \<not> (\<exists>infer.
          list_all (shapeConsistent infer) (constructedBy (ConvConverter (convIR 1 [1, 4, 6, 6]) 0))
        \<and> list_all (shapeConsistent infer) (constructedBy (ConvConverter (convIR 2 [1, 4, 3, 3]) 0)))"
proof (intro conjI notI)
  show "succeeded (ConvConverter (convIR 1 [1, 4, 6, 6]) 0)"
    by (rule conv_succeeded)
  show "succeeded (ConvConverter (convIR 2 [1, 4, 3, 3]) 0)"
    by (rule conv_succeeded)
next
  assume "\<exists>infer.
      list_all (shapeConsistent infer) (constructedBy (ConvConverter (convIR 1 [1, 4, 6, 6]) 0))
    \<and> list_all (shapeConsistent infer) (constructedBy (ConvConverter (convIR 2 [1, 4, 3, 3]) 0))"
  then obtain infer where
    a: "list_all (shapeConsistent infer) (constructedBy (ConvConverter (convIR 1 [1, 4, 6, 6]) 0))"
    and b: "list_all (shapeConsistent infer) (constructedBy (ConvConverter (convIR 2 [1, 4, 3, 3]) 0))"
    by blast
  from a have "infer tosa_conv2d [f32 [1, 8, 8, 3], f32 [4, 3, 3, 3], f32 [4]] [] = Some [1, 6, 6, 4]"
    unfolding conv_constructed by (simp add: shapeConsistent_def getType_def f32_def)
  moreover from b have
    "infer tosa_conv2d [f32 [1, 8, 8, 3], f32 [4, 3, 3, 3], f32 [4]] [] = Some [1, 3, 3, 4]"
    unfolding conv_constructed by (simp add: shapeConsistent_def getType_def f32_def)
  ultimately show False by simp
qed

text \<open>
  C2 (amended). For every operation built through the infer helper (createOpAndInfer),
  on every input on which the rewrite returns, the operation's declared output shape equals
  what the inference function computes from the operation's kind, the types of its operands
  and its attributes when it is constructed, and its element type is the one the rule
  passes. This covers the six operations of the softmax rule, the reciprocal, multiply and
  reduce-sum of the reduce-mean rule (all but its constant), and every operation of the
  quantize-linear rule but its casts. The result types the rules stamp by hand (transposes,
  target convolution, reshapes, matmul, casts, constants) are computed from the source
  operation's types and are not compared with the inference.
\<close>

theorem C2_infer_helper_shape_consistency:
  "(createOpAndInfer infer ir k elemTy args as = Inr (v, irA) \<longrightarrow>
      (\<exists>op. irA = appendOps ir [op] \<and> v = resultOf (length (ops ir)) op
            \<and> kind op = k \<and> operands op = args \<and> attrs op = as
            \<and> shapeConsistent infer op \<and> elementType (resultType op) = elemTy))
   \<and> (SoftmaxConverter infer ir opId = Inr (res, irB) \<longrightarrow>
      (\<exists>new. constructed irB = constructed ir @ new \<and> length new = 6
             \<and> list_all (shapeConsistent infer) new))
   \<and> (ReduceMeanConverter infer ir opId = Inr (Success, irC) \<longrightarrow>
      (\<exists>c new. constructed irC = constructed ir @ c # new \<and> kind c = tosa_const
               \<and> length new = 3 \<and> list_all (shapeConsistent infer) new))
   \<and> (QuantizeLinearConverter infer ir opId = Inr (res', irD) \<longrightarrow>
      (\<exists>new. constructed irD = constructed ir @ new
             \<and> list_all (\<lambda>op. kind op = tosa_cast \<or> shapeConsistent infer op) new))"
proof (intro conjI impI)
  assume "createOpAndInfer infer ir k elemTy args as = Inr (v, irA)"
  then obtain dims where "infer k (map getType args) as = Some dims"
    and "v = resultOf (length (ops ir)) (tosaOp k elemTy args as dims)"
    and "irA = appendOps ir [tosaOp k elemTy args as dims]"
    by (auto simp: createOpAndInfer_Inr_iff)
  then show "\<exists>op. irA = appendOps ir [op] \<and> v = resultOf (length (ops ir)) op
            \<and> kind op = k \<and> operands op = args \<and> attrs op = as
            \<and> shapeConsistent infer op \<and> elementType (resultType op) = elemTy"
    by (intro exI [of _ "tosaOp k elemTy args as dims"])
       (simp add: shapeConsistent_tosaOp tosaOp_fields)
next
  assume "SoftmaxConverter infer ir opId = Inr (res, irB)"
  then show "\<exists>new. constructed irB = constructed ir @ new \<and> length new = 6
             \<and> list_all (shapeConsistent infer) new"
    by (rule SoftmaxConverter_constructed)
next
  assume "ReduceMeanConverter infer ir opId = Inr (Success, irC)"
  then show "\<exists>c new. constructed irC = constructed ir @ c # new \<and> kind c = tosa_const
               \<and> length new = 3 \<and> list_all (shapeConsistent infer) new"
    by (rule ReduceMeanConverter_constructed)
next
  assume "QuantizeLinearConverter infer ir opId = Inr (res', irD)"
  then show "\<exists>new. constructed irD = constructed ir @ new
             \<and> list_all (\<lambda>op. kind op = tosa_cast \<or> shapeConsistent infer op) new"
    by (rule QuantizeLinearConverter_constructed)
qed

theorem C2_infer_helper_shape_consistency_witness:
  "succeeded (SoftmaxConverter firstOperandShape softmaxIR 0)
   \<and> length (constructedBy (SoftmaxConverter firstOperandShape softmaxIR 0)) = 6
   \<and> list_all (shapeConsistent firstOperandShape)
        (constructedBy (SoftmaxConverter firstOperandShape softmaxIR 0))
   \<and> succeeded (ReduceMeanConverter firstOperandShape (reduceMeanIR [IntegerAttr 1]) 0)
   \<and> list_all (shapeConsistent firstOperandShape)
        (tl (constructedBy (ReduceMeanConverter firstOperandShape (reduceMeanIR [IntegerAttr 1]) 0)))
   \<and> succeeded (QuantizeLinearConverter firstOperandShape (quantizeLinearIR []) 0)
   \<and> list_all (\<lambda>op. kind op = tosa_cast \<or> shapeConsistent firstOperandShape op)
        (constructedBy (QuantizeLinearConverter firstOperandShape (quantizeLinearIR []) 0))
   \<and> (\<exists>v irA. createOpAndInfer firstOperandShape softmaxIR tosa_exp (FloatType 32)
                  [BlockArgument 0 (f32 [2, 3])] [] = Inr (v, irA)
              \<and> list_all (shapeConsistent firstOperandShape) (constructed irA))"
proof -
  obtain s where s: "SoftmaxConverter firstOperandShape softmaxIR 0 = Inr (Success, s)"
    by (simp add: rule_eval)
  obtain r where r: "ReduceMeanConverter firstOperandShape (reduceMeanIR [IntegerAttr 1]) 0
                     = Inr (Success, r)"
    by (simp add: rule_eval)
  obtain q where q: "QuantizeLinearConverter firstOperandShape (quantizeLinearIR []) 0
                     = Inr (Success, q)"
    by (simp add: rule_eval)
  obtain v c where c: "createOpAndInfer firstOperandShape softmaxIR tosa_exp (FloatType 32)
                         [BlockArgument 0 (f32 [2, 3])] [] = Inr (v, c)"
    by (simp add: rule_eval)
  note w1 = C2_infer_helper_shape_consistency
    [where infer = firstOperandShape and ir = softmaxIR and k = tosa_exp
       and elemTy = "FloatType 32" and args = "[BlockArgument 0 (f32 [2, 3])]" and as = "[]"
       and v = v and irA = c, THEN conjunct1, rule_format, OF c]
  note w2 = C2_infer_helper_shape_consistency
    [where infer = firstOperandShape and ir = softmaxIR and opId = 0 and res = Success
       and irB = s, THEN conjunct2, THEN conjunct1, rule_format, OF s]
  note w3 = C2_infer_helper_shape_consistency
    [where infer = firstOperandShape and ir = "reduceMeanIR [IntegerAttr 1]" and opId = 0
       and irC = r, THEN conjunct2, THEN conjunct2, THEN conjunct1, rule_format, OF r]
  note w4 = C2_infer_helper_shape_consistency
    [where infer = firstOperandShape and ir = "quantizeLinearIR []" and opId = 0
       and res' = Success and irD = q, THEN conjunct2, THEN conjunct2, THEN conjunct2,
     rule_format, OF q]
  from w1 have c': "list_all (shapeConsistent firstOperandShape) (constructed c)"
    by (auto simp: appendOps_fields softmaxIR_def)
  from w2 have s': "length (constructed s) = 6
                    \<and> list_all (shapeConsistent firstOperandShape) (constructed s)"
    by (auto simp: softmaxIR_def)
  from w3 have r': "list_all (shapeConsistent firstOperandShape) (tl (constructed r))"
    by (auto simp: reduceMeanIR_def)
  from w4 have q': "list_all (\<lambda>op. kind op = tosa_cast \<or> shapeConsistent firstOperandShape op)
                      (constructed q)"
    by (auto simp: quantizeLinearIR_def)
  show ?thesis
    using s s' r r' q q' c c' by (auto simp: succeeded_def constructedBy_def)
qed

text \<open>
  C3 (the code at the failing input). The broadcast's result feeds a one-operand operation
  and a two-operand add. The loop over the uses visits the add first, finds it broadcastable
  and sets its second operand to the broadcast's input, in place; it then meets the
  one-operand consumer and returns failure. The rewrite has failed and the add no longer
  reads the broadcast's result.
\<close>

theorem C3_broadcast_failure_after_rewiring:
  "BroadcastConverter broadcastFailIR 0 =
     Inr (Failure,
          broadcastFailIR\<lparr>ops := (ops broadcastFailIR)
            [2 := (ops broadcastFailIR ! 2)
                    \<lparr>operands := [BlockArgument 1 (f32 [4]), BlockArgument 0 (f32 [4])]\<rparr>]\<rparr>)
   \<and> operands (ops broadcastFailIR ! 2) = [BlockArgument 1 (f32 [4]), OpResult 0 (f32 [4])]
   \<and> getUses broadcastFailIR (getResult broadcastFailIR 0) = [2, 1]"
  by (simp add: broadcast_eval broadcastFailIR_def f32_def upt_rec)

text \<open>
  C6. In the broadcast lowering, for an input of rank at least 1, a broadcast output of rank
  R and an alignment axis a below R: when R differs from the input's rank the operand the
  consumers are rewired to is a reshape of the input whose target shape has rank R, the
  input's leading extent at axis a and 1 everywhere else; when R equals the input's rank no
  reshape is created and the operand is the input itself. Input shape [4] with target rank
  4 and axis 1 gives [1,4,1,1].
\<close>

theorem C6_broadcast_alignment:
  assumes "R = length (shape outTy)" and "R < 2 ^ 32"
    and "inShape = shape (getType input_t)" and "inShape \<noteq> []"
    and "a = unat axis" and "a < R"
    and "newShape = (replicate R 1)[a := inShape ! 0]"
  shows "(R \<noteq> length inShape \<longrightarrow>
            broadcastOperand ir input_t axis outTy =
              Inr (create ir (reshapeOp input_t newShape
                     \<lparr>shape = newShape, elementType = elementType outTy\<rparr>)))
       \<and> (R = length inShape \<longrightarrow> broadcastOperand ir input_t axis outTy = Inr (input_t, ir))
       \<and> length newShape = R \<and> newShape ! a = inShape ! 0
       \<and> (\<forall>i<R. i \<noteq> a \<longrightarrow> newShape ! i = 1)
       \<and> alignByAxis 4 1 [4] = Inr [1, 4, 1, 1]"
proof -
  have al: "alignByAxis R axis inShape = Inr newShape"
    using assms by (simp add: alignByAxis_in)
  have m: "length (shape outTy) mod 2 ^ 32 = R"
    using assms by simp
  have reshape: "R \<noteq> length inShape \<Longrightarrow>
      broadcastOperand ir input_t axis outTy =
        Inr (create ir (reshapeOp input_t newShape
               \<lparr>shape = newShape, elementType = elementType outTy\<rparr>))"
    unfolding broadcastOperand_def Let_def m
    using al assms(3) by (simp add: andThen_Inr)
  have same: "R = length inShape \<Longrightarrow> broadcastOperand ir input_t axis outTy = Inr (input_t, ir)"
    unfolding broadcastOperand_def Let_def m
    using assms(3) by simp
  have ex: "alignByAxis 4 1 [4] = Inr [1, 4, 1, 1]"
    by (simp add: alignByAxis_in replicate_numeral)
  show ?thesis
    using reshape same ex assms(6,7) by simp
qed

theorem C6_broadcast_alignment_witness:
  "(4 :: nat) = length (shape (f32 [2, 4, 3, 3])) \<and> (4 :: nat) < 2 ^ 32
   \<and> [4] = shape (getType (BlockArgument 0 (f32 [4])))
   \<and> [4 :: int64] \<noteq> [] \<and> (1 :: nat) = unat (1 :: int64) \<and> (1 :: nat) < 4
   \<and> [1, 4, 1, 1] = (replicate 4 1)[1 := [4 :: int64] ! 0]
   \<and> broadcastOperand broadcastIR (BlockArgument 0 (f32 [4])) 1 (f32 [2, 4, 3, 3]) =
       Inr (create broadcastIR (reshapeOp (BlockArgument 0 (f32 [4])) [1, 4, 1, 1]
              \<lparr>shape = [1, 4, 1, 1], elementType = FloatType 32\<rparr>))
   \<and> broadcastOperand broadcastFailIR (BlockArgument 0 (f32 [4])) 0 (f32 [4]) =
       Inr (BlockArgument 0 (f32 [4]), broadcastFailIR)"
  using C6_broadcast_alignment
          [of 4 "f32 [2, 4, 3, 3]" "[4]" "BlockArgument 0 (f32 [4])" 1 1 "[1, 4, 1, 1]" broadcastIR]
        C6_broadcast_alignment
          [of 1 "f32 [4]" "[4]" "BlockArgument 0 (f32 [4])" 0 0 "[4]" broadcastFailIR]
  by (simp add: f32_def getType_def replicate_numeral)




text \<open>
  C8. The quantize-linear lowering produces exactly this chain (the inference of the add and
  of the multiply succeeding, which line 53 asserts). Without a bias operand: a cast of the
  input to the 32-bit float type, a multiply of that by the scale operand in the 32-bit
  float type, a cast of the product to the 8-bit integer type. With a bias operand the
  chain starts with an add of input and bias in the element type of the input, and the
  first cast takes the sum. Nothing else is created, and the last cast's result replaces
  the result of the quantize-linear operation.
\<close>

theorem C8_quantize_linear_chain:
  assumes "opId < length (ops ir)" and "n = length (ops ir)"
    and "shift = [(''shift'', IntegerAttr 0)]"
  shows "(operands (ops ir ! opId) = [input, scale]
          \<and> up = castOp (FloatType 32) input
          \<and> infer tosa_mul [resultType up, getType scale] shift = Some dMul
          \<and> mul = tosaOp tosa_mul (FloatType 32) [resultOf n up, scale] shift dMul
          \<and> down = castOp (IntegerType 8) (resultOf (n + 1) mul)
          \<longrightarrow> QuantizeLinearConverter infer ir opId
                = Inr (Success, replaceOp (appendOps ir [up, mul, down]) opId
                                  (resultOf (n + 2) down)))
       \<and> (operands (ops ir ! opId) = [input, scale, bias]
          \<and> infer tosa_add [getType input, getType bias] [] = Some dAdd
          \<and> add = tosaOp tosa_add (elementType (getType input)) [input, bias] [] dAdd
          \<and> up' = castOp (FloatType 32) (resultOf n add)
          \<and> infer tosa_mul [resultType up', getType scale] shift = Some dMul'
          \<and> mul' = tosaOp tosa_mul (FloatType 32) [resultOf (n + 1) up', scale] shift dMul'
          \<and> down' = castOp (IntegerType 8) (resultOf (n + 2) mul')
          \<longrightarrow> QuantizeLinearConverter infer ir opId
                = Inr (Success, replaceOp (appendOps ir [add, up', mul', down']) opId
                                  (resultOf (n + 3) down')))"
proof (intro conjI impI; elim conjE)
  assume h: "operands (ops ir ! opId) = [input, scale]"
    "up = castOp (FloatType 32) input"
    "infer tosa_mul [resultType up, getType scale] shift = Some dMul"
    "mul = tosaOp tosa_mul (FloatType 32) [resultOf n up, scale] shift dMul"
    "down = castOp (IntegerType 8) (resultOf (n + 1) mul)"
  have s1: "createCastOp ir (FloatType 32) input = (resultOf n up, appendOps ir [up])"
    by (simp add: createCastOp_def create_def h(2) assms(2))
  have "infer tosa_mul (map getType [resultOf n up, scale]) shift = Some dMul"
    using h(3) by (simp add: getType_resultOf)
  then have s2: "createOpAndInfer infer (appendOps ir [up]) tosa_mul (FloatType 32)
                   [resultOf n up, scale] [(''shift'', IntegerAttr 0)]
                 = Inr (resultOf (Suc n) mul, appendOps ir [up, mul])"
    unfolding assms(3) [symmetric]
    by (simp add: createOpAndInfer_Some appendOps_fields appendOps_appendOps h(4) assms(2))
  have s3: "createCastOp (appendOps ir [up, mul]) (IntegerType 8) (resultOf (Suc n) mul)
            = (resultOf (Suc (Suc n)) down, appendOps ir [up, mul, down])"
    by (simp add: createCastOp_def create_def appendOps_fields appendOps_appendOps h(5) assms(2))
  have "QuantizeLinearConverter infer ir opId
        = Inr (Success, replaceOp (appendOps ir [up, mul, down]) opId
                          (resultOf (Suc (Suc n)) down))"
    unfolding QuantizeLinearConverter_def
    by (simp add: at_in assms(1) h(1) andThen_Inr Let_def s1 s2 s3)
  then show "QuantizeLinearConverter infer ir opId
        = Inr (Success, replaceOp (appendOps ir [up, mul, down]) opId (resultOf (n + 2) down))"
    by simp
next
  assume h: "operands (ops ir ! opId) = [input, scale, bias]"
    "infer tosa_add [getType input, getType bias] [] = Some dAdd"
    "add = tosaOp tosa_add (elementType (getType input)) [input, bias] [] dAdd"
    "up' = castOp (FloatType 32) (resultOf n add)"
    "infer tosa_mul [resultType up', getType scale] shift = Some dMul'"
    "mul' = tosaOp tosa_mul (FloatType 32) [resultOf (n + 1) up', scale] shift dMul'"
    "down' = castOp (IntegerType 8) (resultOf (n + 2) mul')"
  have "infer tosa_add (map getType [input, bias]) [] = Some dAdd"
    using h(2) by simp
  then have s0: "createOpAndInfer infer ir tosa_add (elementType (getType input))
                   [input, bias] []
                 = Inr (resultOf n add, appendOps ir [add])"
    by (simp add: createOpAndInfer_Some h(3) assms(2))
  have s1: "createCastOp (appendOps ir [add]) (FloatType 32) (resultOf n add)
            = (resultOf (Suc n) up', appendOps ir [add, up'])"
    by (simp add: createCastOp_def create_def appendOps_fields appendOps_appendOps h(4) assms(2))
  have "infer tosa_mul (map getType [resultOf (Suc n) up', scale]) shift = Some dMul'"
    using h(5) by (simp add: getType_resultOf)
  then have s2: "createOpAndInfer infer (appendOps ir [add, up']) tosa_mul (FloatType 32)
                   [resultOf (Suc n) up', scale] [(''shift'', IntegerAttr 0)]
                 = Inr (resultOf (Suc (Suc n)) mul', appendOps ir [add, up', mul'])"
    unfolding assms(3) [symmetric]
    by (simp add: createOpAndInfer_Some appendOps_fields appendOps_appendOps h(6) assms(2))
  have s3: "createCastOp (appendOps ir [add, up', mul']) (IntegerType 8)
              (resultOf (Suc (Suc n)) mul')
            = (resultOf (Suc (Suc (Suc n))) down', appendOps ir [add, up', mul', down'])"
    by (simp add: createCastOp_def create_def appendOps_fields appendOps_appendOps h(7) assms(2))
  have "QuantizeLinearConverter infer ir opId
        = Inr (Success, replaceOp (appendOps ir [add, up', mul', down']) opId
                          (resultOf (Suc (Suc (Suc n))) down'))"
    unfolding QuantizeLinearConverter_def
    by (simp add: at_in assms(1) h(1) andThen_Inr Let_def s0 s1 s2 s3)
  then show "QuantizeLinearConverter infer ir opId
        = Inr (Success, replaceOp (appendOps ir [add, up', mul', down']) opId
                          (resultOf (n + 3) down'))"
    by (simp add: numeral_3_eq_3)
qed

theorem C8_quantize_linear_chain_witness:
  "0 < length (ops (quantizeLinearIR []))
   \<and> operands (ops (quantizeLinearIR []) ! 0)
       = [BlockArgument 0 (f32 [2, 3]), BlockArgument 1 (f32 [2, 3])]
   \<and> QuantizeLinearConverter firstOperandShape (quantizeLinearIR []) 0
       = Inr (Success,
           replaceOp
             (appendOps (quantizeLinearIR [])
                [castOp (FloatType 32) (BlockArgument 0 (f32 [2, 3])),
                 tosaOp tosa_mul (FloatType 32)
                   [OpResult 1 (f32 [2, 3]), BlockArgument 1 (f32 [2, 3])]
                   [(''shift'', IntegerAttr 0)] [2, 3],
                 castOp (IntegerType 8) (OpResult 2 (f32 [2, 3]))])
             0 (OpResult 3 \<lparr>shape = [2, 3], elementType = IntegerType 8\<rparr>))
   \<and> operands (ops (quantizeLinearIR [BlockArgument 2 (f32 [2, 3])]) ! 0)
       = [BlockArgument 0 (f32 [2, 3]), BlockArgument 1 (f32 [2, 3]), BlockArgument 2 (f32 [2, 3])]
   \<and> QuantizeLinearConverter firstOperandShape (quantizeLinearIR [BlockArgument 2 (f32 [2, 3])]) 0
       = Inr (Success,
           replaceOp
             (appendOps (quantizeLinearIR [BlockArgument 2 (f32 [2, 3])])
                [tosaOp tosa_add (FloatType 32)
                   [BlockArgument 0 (f32 [2, 3]), BlockArgument 2 (f32 [2, 3])] [] [2, 3],
                 castOp (FloatType 32) (OpResult 1 (f32 [2, 3])),
                 tosaOp tosa_mul (FloatType 32)
                   [OpResult 2 (f32 [2, 3]), BlockArgument 1 (f32 [2, 3])]
                   [(''shift'', IntegerAttr 0)] [2, 3],
                 castOp (IntegerType 8) (OpResult 3 (f32 [2, 3]))])
             0 (OpResult 4 \<lparr>shape = [2, 3], elementType = IntegerType 8\<rparr>))"
proof -
  let ?a0 = "BlockArgument 0 (f32 [2, 3])" and ?a1 = "BlockArgument 1 (f32 [2, 3])"
    and ?a2 = "BlockArgument 2 (f32 [2, 3])" and ?shift = "[(''shift'', IntegerAttr 0)]"
  let ?up = "castOp (FloatType 32) ?a0"
  let ?mul = "tosaOp tosa_mul (FloatType 32) [resultOf 1 ?up, ?a1] ?shift [2, 3]"
  let ?down = "castOp (IntegerType 8) (resultOf (1 + 1) ?mul)"
  let ?add = "tosaOp tosa_add (elementType (getType ?a0)) [?a0, ?a2] [] [2, 3]"
  let ?up' = "castOp (FloatType 32) (resultOf 1 ?add)"
  let ?mul' = "tosaOp tosa_mul (FloatType 32) [resultOf (1 + 1) ?up', ?a1] ?shift [2, 3]"
  let ?down' = "castOp (IntegerType 8) (resultOf (1 + 2) ?mul')"
  note ev = quantizeLinearIR_def f32_def getType_def castOp_def tosaOp_def resultOf_def
    firstOperandShape_def
  have e: "\<And>b. 0 < length (ops (quantizeLinearIR b))"
    "\<And>b. 1 = length (ops (quantizeLinearIR b))"
    by (simp_all add: quantizeLinearIR_def)
  have p1: "operands (ops (quantizeLinearIR []) ! 0) = [?a0, ?a1]
          \<and> ?up = castOp (FloatType 32) ?a0
          \<and> firstOperandShape tosa_mul [resultType ?up, getType ?a1] ?shift = Some [2, 3]
          \<and> ?mul = tosaOp tosa_mul (FloatType 32) [resultOf 1 ?up, ?a1] ?shift [2, 3]
          \<and> ?down = castOp (IntegerType 8) (resultOf (1 + 1) ?mul)"
    by (simp add: ev)
  have p2: "operands (ops (quantizeLinearIR [?a2]) ! 0) = [?a0, ?a1, ?a2]
          \<and> firstOperandShape tosa_add [getType ?a0, getType ?a2] [] = Some [2, 3]
          \<and> ?add = tosaOp tosa_add (elementType (getType ?a0)) [?a0, ?a2] [] [2, 3]
          \<and> ?up' = castOp (FloatType 32) (resultOf 1 ?add)
          \<and> firstOperandShape tosa_mul [resultType ?up', getType ?a1] ?shift = Some [2, 3]
          \<and> ?mul' = tosaOp tosa_mul (FloatType 32) [resultOf (1 + 1) ?up', ?a1] ?shift [2, 3]
          \<and> ?down' = castOp (IntegerType 8) (resultOf (1 + 2) ?mul')"
    by (simp add: ev)
  note w1 = C8_quantize_linear_chain
    [where opId = 0 and ir = "quantizeLinearIR []" and n = 1 and shift = ?shift
       and infer = firstOperandShape and input = ?a0 and scale = ?a1 and up = ?up
       and dMul = "[2, 3]" and mul = ?mul and down = ?down,
     OF e(1) e(2) refl, THEN conjunct1, rule_format, OF p1]
  note w2 = C8_quantize_linear_chain
    [where opId = 0 and ir = "quantizeLinearIR [?a2]" and n = 1 and shift = ?shift
       and infer = firstOperandShape and input = ?a0 and scale = ?a1 and bias = ?a2
       and dAdd = "[2, 3]" and add = ?add and up' = ?up'
       and dMul' = "[2, 3]" and mul' = ?mul' and down' = ?down',
     OF e(1) e(2) refl, THEN conjunct2, rule_format, OF p2]
  have n: "Suc (Suc (Suc 0)) = 3" "Suc (Suc (Suc (Suc 0))) = 4" "Suc (Suc 0) = 2"
    by simp_all
  show ?thesis
    using w1 w2 by (simp add: ev n)
qed



text \<open>
  C7. The shape computed by the layout transpose construction is the input shape permuted by
  the given permutation: for a four-entry permutation whose entries index the input shape,
  the permuted shape has at each position the input's extent at the permutation's entry,
  and the rule's helper creates the permutation constant and a transpose of that shape and
  of the input's element type. Permuting any four-dimensional shape by [0,2,3,1] and then
  by [0,3,1,2] gives the shape back; so [1,3,8,8] round-trips.
\<close>

theorem C7_transpose_round_trip:
  "(length permutation = 4 \<and> (\<forall>p \<in> set permutation. unat p < length inputShape) \<longrightarrow>
      permutedShape inputShape permutation = Inr (map (\<lambda>p. inputShape ! unat p) permutation))
   \<and> (permutedShape (shape (getType input)) permutation = Inr newShape \<longrightarrow>
      getRank4TransposeOp ir input permutation =
        Inr (resultOf (Suc (length (ops ir)))
               (transposeOp input (resultOf (length (ops ir)) (permutationConst permutation))
                  newShape),
             appendOps ir
               [permutationConst permutation,
                transposeOp input (resultOf (length (ops ir)) (permutationConst permutation))
                  newShape])
      \<and> shape (resultType (transposeOp input
             (resultOf (length (ops ir)) (permutationConst permutation)) newShape)) = newShape)
   \<and> (length s = 4 \<longrightarrow>
      (\<exists>t. permutedShape s NCHW2NHWC = Inr t \<and> permutedShape t NHWC2NCHW = Inr s))
   \<and> permutedShape [1, 3, 8, 8] NCHW2NHWC = Inr [1, 8, 8, 3]
   \<and> permutedShape [1, 8, 8, 3] NHWC2NCHW = Inr [1, 3, 8, 8]"
proof (intro conjI impI)
  assume h: "length permutation = 4 \<and> (\<forall>p \<in> set permutation. unat p < length inputShape)"
  then obtain p0 p1 p2 p3 where p: "permutation = [p0, p1, p2, p3]"
    by (auto simp: length_Suc_conv numeral_eq_Suc)
  with h show "permutedShape inputShape permutation
      = Inr (map (\<lambda>p. inputShape ! unat p) permutation)"
    by (simp add: permutedShape_def andThen_def at_def)
next
  assume "permutedShape (shape (getType input)) permutation = Inr newShape"
  then show "getRank4TransposeOp ir input permutation =
        Inr (resultOf (Suc (length (ops ir)))
               (transposeOp input (resultOf (length (ops ir)) (permutationConst permutation))
                  newShape),
             appendOps ir
               [permutationConst permutation,
                transposeOp input (resultOf (length (ops ir)) (permutationConst permutation))
                  newShape])"
    by (rule getRank4TransposeOp_permuted)
next
  show "shape (resultType (transposeOp input
          (resultOf (length (ops ir)) (permutationConst permutation)) newShape)) = newShape"
    by (simp add: transposeOp_def)
next
  assume "length s = 4"
  then obtain a b c d where s: "s = [a, b, c, d]"
    by (auto simp: length_Suc_conv numeral_eq_Suc)
  show "\<exists>t. permutedShape s NCHW2NHWC = Inr t \<and> permutedShape t NHWC2NCHW = Inr s"
    unfolding s by (simp add: permutedShape_rank4)
next
  show "permutedShape [1, 3, 8, 8] NCHW2NHWC = Inr [1, 8, 8, 3]"
    by (rule permutedShape_rank4)
next
  show "permutedShape [1, 8, 8, 3] NHWC2NCHW = Inr [1, 3, 8, 8]"
    by (rule permutedShape_rank4)
qed

theorem C7_transpose_round_trip_witness:
  "length NCHW2NHWC = 4 \<and> list_all (\<lambda>p. unat p < length [2, 3, 4, 5 :: int64]) NCHW2NHWC
   \<and> permutedShape [2, 3, 4, 5] NCHW2NHWC = Inr [2, 4, 5, 3]
   \<and> permutedShape (shape (getType (BlockArgument 0 (f32 [2, 3, 4, 5])))) NCHW2NHWC
       = Inr [2, 4, 5, 3]
   \<and> getRank4TransposeOp broadcastIR (BlockArgument 0 (f32 [2, 3, 4, 5])) NCHW2NHWC =
       Inr (resultOf 3 (transposeOp (BlockArgument 0 (f32 [2, 3, 4, 5]))
                          (resultOf 2 (permutationConst NCHW2NHWC)) [2, 4, 5, 3]),
            appendOps broadcastIR
              [permutationConst NCHW2NHWC,
               transposeOp (BlockArgument 0 (f32 [2, 3, 4, 5]))
                 (resultOf 2 (permutationConst NCHW2NHWC)) [2, 4, 5, 3]])
   \<and> length [2, 3, 4, 5 :: int64] = 4
   \<and> (\<exists>t. permutedShape [2, 3, 4, 5] NCHW2NHWC = Inr t \<and> permutedShape t NHWC2NCHW = Inr [2, 3, 4, 5])"
proof -
  have p: "permutedShape (shape (getType (BlockArgument 0 (f32 [2, 3, 4, 5])))) NCHW2NHWC
           = Inr [2, 4, 5, 3]"
    by (simp add: getType_def f32_def permutedShape_rank4)
  have l: "length (ops broadcastIR) = 2"
    by (simp add: broadcastIR_def)
  note w = C7_transpose_round_trip
    [where permutation = NCHW2NHWC and inputShape = "[2, 3, 4, 5]" and s = "[2, 3, 4, 5]"
       and input = "BlockArgument 0 (f32 [2, 3, 4, 5])" and newShape = "[2, 4, 5, 3]"
       and ir = broadcastIR]
  from w p have "getRank4TransposeOp broadcastIR (BlockArgument 0 (f32 [2, 3, 4, 5])) NCHW2NHWC =
       Inr (resultOf 3 (transposeOp (BlockArgument 0 (f32 [2, 3, 4, 5]))
                          (resultOf 2 (permutationConst NCHW2NHWC)) [2, 4, 5, 3]),
            appendOps broadcastIR
              [permutationConst NCHW2NHWC,
               transposeOp (BlockArgument 0 (f32 [2, 3, 4, 5]))
                 (resultOf 2 (permutationConst NCHW2NHWC)) [2, 4, 5, 3]])"
    by (simp add: l numeral_3_eq_3)
  moreover have "length NCHW2NHWC = 4"
    and "list_all (\<lambda>p. unat p < length [2, 3, 4, 5 :: int64]) NCHW2NHWC"
    by (simp_all add: NCHW2NHWC_def)
  ultimately show ?thesis
    using p by (simp add: permutedShape_rank4)
qed

end
